theory Spec2Isabelle
  imports Complex_Main
begin

section \<open>The question submission service (main.py)\<close>

text \<open>
  The service has one endpoint, \<^verbatim>\<open>POST /questions\<close>, served by the function
  \<^verbatim>\<open>create_submission\<close>. The function talks to three collaborators that are not
  part of the repository: the standard library (\<^verbatim>\<open>uuid.uuid4\<close>, \<^verbatim>\<open>base64.b64decode\<close>,
  \<^verbatim>\<open>print\<close>), the object store client and the PostgreSQL connection. Their answers are
  the fields of the record \<open>env\<close>; what the function does to them is recorded in
  \<open>state\<close>: the list of upload calls and the table \<^verbatim>\<open>questions\<close>.
\<close>

subsection \<open>Strings\<close>

text \<open>\<^verbatim>\<open>str.lower()\<close>, on the ASCII letters (no other character lowers to a letter of
  \<^verbatim>\<open>"image"\<close>).\<close>

definition lower_char :: "char \<Rightarrow> char" where
  "lower_char c =
     (case map_of (zip ''ABCDEFGHIJKLMNOPQRSTUVWXYZ'' ''abcdefghijklmnopqrstuvwxyz'') c of
        Some l \<Rightarrow> l
      | None \<Rightarrow> c)"

definition lower :: "string \<Rightarrow> string" where
  "lower s = map lower_char s"

text \<open>\<^verbatim>\<open>str(n)\<close> of an integer, as the f-strings print it.\<close>

definition digit_char :: "nat \<Rightarrow> char" where
  "digit_char d = ''0123456789'' ! d"

fun str_nat :: "nat \<Rightarrow> string" where
  "str_nat n = (if n < 10 then [digit_char n] else str_nat (n div 10) @ [digit_char (n mod 10)])"

declare str_nat.simps [simp del]

definition str_int :: "int \<Rightarrow> string" where
  "str_int i = (if i < 0 then CHR ''-'' # str_nat (nat (- i)) else str_nat (nat i))"

subsection \<open>The decoder of the standard library\<close>

text \<open>
  \<^verbatim>\<open>base64.b64decode(s)\<close> as line 128 calls it, without \<^verbatim>\<open>validate\<close>: a string with a
  character outside ASCII is refused; otherwise the characters are read one by one,
  those outside the base64 alphabet are skipped, four characters of the alphabet give three
  bytes, and a pad character ends the input once the open group holds two or three
  characters and the pads complete it. The decoder raises only when the input ends inside
  a group. It does not check that the string is well-formed base64.
\<close>

fun index_from :: "nat \<Rightarrow> 'a \<Rightarrow> 'a list \<Rightarrow> nat option" where
  "index_from i c [] = None"
| "index_from i c (x # xs) = (if c = x then Some i else index_from (i + 1) c xs)"

definition table_a2b_base64 :: "char \<Rightarrow> nat option" where
  "table_a2b_base64 c =
     index_from 0 c ''ABCDEFGHIJKLMNOPQRSTUVWXYZabcdefghijklmnopqrstuvwxyz0123456789+/''"

fun a2b_base64 :: "string \<Rightarrow> nat \<Rightarrow> nat \<Rightarrow> nat \<Rightarrow> nat list \<Rightarrow> string + nat list" where
  "a2b_base64 [] quad_pos leftchar pads bin_data =
     (if quad_pos = 0 then Inr bin_data
      else if quad_pos = 1 then
        Inl (''Invalid base64-encoded string: number of data characters ('' @
             str_nat (length bin_data div 3 * 4 + 1) @
             '') cannot be 1 more than a multiple of 4'')
      else Inl ''Incorrect padding'')"
| "a2b_base64 (this_ch # rest) quad_pos leftchar pads bin_data =
     (if this_ch = CHR ''='' then
        (if 2 \<le> quad_pos \<and> 4 \<le> quad_pos + (pads + 1) then Inr bin_data
         else a2b_base64 rest quad_pos leftchar (if 2 \<le> quad_pos then pads + 1 else pads) bin_data)
      else
        (case table_a2b_base64 this_ch of
           None \<Rightarrow> a2b_base64 rest quad_pos leftchar pads bin_data
         | Some v \<Rightarrow>
             if quad_pos = 0 then a2b_base64 rest 1 v 0 bin_data
             else if quad_pos = 1 then
               a2b_base64 rest 2 (v mod 16) 0 (bin_data @ [leftchar * 4 + v div 16])
             else if quad_pos = 2 then
               a2b_base64 rest 3 (v mod 4) 0 (bin_data @ [leftchar * 16 + v div 4])
             else a2b_base64 rest 0 0 0 (bin_data @ [leftchar * 64 + v])))"

definition base64_b64decode :: "string \<Rightarrow> string + nat list" where
  "base64_b64decode s =
     (if list_ex digit7 s then Inl ''string argument should contain only ASCII characters''
      else a2b_base64 s 0 0 0 [])"

text \<open>
  Well-formed base64, as the encoding is defined: groups of four characters of the
  alphabet, the last group closed by at most two pad characters.
\<close>

definition well_formed_base64 :: "string \<Rightarrow> bool" where
  "well_formed_base64 s \<longleftrightarrow>
     length s mod 4 = 0 \<and>
     list_all (\<lambda>c. table_a2b_base64 c \<noteq> None) (takeWhile (\<lambda>c. c \<noteq> CHR ''='') s) \<and>
     list_all (\<lambda>c. c = CHR ''='') (dropWhile (\<lambda>c. c \<noteq> CHR ''='') s) \<and>
     length (dropWhile (\<lambda>c. c \<noteq> CHR ''='') s) \<le> 2"

subsection \<open>Request models\<close>

record FilterModel =
  materia :: "string list"
  assunto :: "string list"
  subAssunto :: "string list"
  faculdade :: string
  ano :: string

record DataItem =
  item_id :: int
  item_value :: string
  item_type :: string

record Submission =
  data :: "DataItem list"
  filter_model :: FilterModel

subsection \<open>Values built by the handler\<close>

text \<open>The entries of \<^verbatim>\<open>processed_data\<close>: dictionaries with the keys
  \<^verbatim>\<open>id\<close>, \<^verbatim>\<open>type\<close> and \<^verbatim>\<open>value\<close>.\<close>

record ProcessedItem =
  p_id :: int
  p_type :: string
  p_value :: string

text \<open>The Python values bound to the five filter variables and handed to the
  \<^verbatim>\<open>INSERT\<close> as parameters: strings, lists and tuples.\<close>

datatype pyval = PyStr string | PyList "pyval list" | PyTuple "pyval list"

definition py_str_list :: "string list \<Rightarrow> pyval" where
  "py_str_list xs = PyList (map PyStr xs)"

text \<open>The dictionary \<^verbatim>\<open>record\<close>. Its \<^verbatim>\<open>data\<close> entry is kept as the list that
  \<^verbatim>\<open>json.dumps\<close> serialises into the JSONB column.\<close>

record question_record =
  rec_question_id :: string
  rec_materia :: pyval
  rec_assunto :: pyval
  rec_sub_assunto :: pyval
  rec_faculdade :: pyval
  rec_ano :: pyval
  rec_data :: "ProcessedItem list"

text \<open>A row of the table \<^verbatim>\<open>questions\<close>: the values of the columns with the
  \<^verbatim>\<open>SERIAL\<close> key (the column \<^verbatim>\<open>created_at\<close>, a clock reading, is left out).\<close>

record question_row = question_record +
  row_id :: int

definition make_row :: "int \<Rightarrow> question_record \<Rightarrow> question_row" where
  "make_row i r = question_record.extend r \<lparr>row_id = i\<rparr>"

text \<open>The exceptions that leave the handler: an \<^verbatim>\<open>HTTPException\<close> with status code and
  detail, or any other exception, with its text.\<close>

datatype exn = HTTPException int string | Exception string

record response =
  message :: string
  submission_id :: int

subsection \<open>Collaborators\<close>

text \<open>Bytes, as the list of their values.\<close>

type_synonym bytes = "nat list"

text \<open>A request body as \<^verbatim>\<open>json.loads\<close> reads it: a number written without fraction
  and exponent is a \<open>JInt\<close>, any other number a \<open>JFloat\<close>.\<close>

datatype json =
  JNull | JBool bool | JInt int | JFloat rat | JStr string
  | JArr "json list" | JObj "(string \<times> json) list"

text \<open>What \<^verbatim>\<open>upload\<close> and the check of its result do inside the \<^verbatim>\<open>try\<close> block:
  the call raises (with the exception's text), or returns a result that is falsy, in which
  case line 144 raises inside the same \<^verbatim>\<open>try\<close> (the text is that of the exception the
  \<^verbatim>\<open>except\<close> clause catches), or returns a truthy result.\<close>

datatype upload_outcome = UploadRaises string | UploadFalsy string | UploadTruthy

text \<open>
  \<open>uuid4\<close> is the text of the UUID drawn for the request; \<open>b64decode\<close> answers with the
  bytes or with the text of the exception it raises, and so does \<open>get_public_url\<close>; the four
  \<open>_raises\<close> fields say whether \<^verbatim>\<open>cursor.execute\<close> (for a reason other than the
  \<^verbatim>\<open>UNIQUE\<close> constraint), \<^verbatim>\<open>db.commit\<close>, \<^verbatim>\<open>cursor.fetchone()["id"]\<close> and
  \<^verbatim>\<open>print\<close> raise, and with which text. \<^verbatim>\<open>db.cursor\<close>, \<^verbatim>\<open>db.rollback\<close> and
  \<^verbatim>\<open>cursor.close\<close> are taken not to raise. The two validators are pydantic's conversions
  of a JSON value to the field types \<^verbatim>\<open>int\<close> and \<^verbatim>\<open>str\<close>. The handler's own code
  is stated for any such collaborators; the store's client forms its public URL from the
  bucket and the name without a request, and the standard decoder and pydantic's
  conversions are given below.
\<close>

record env =
  uuid4 :: string
  IMAGE_BUCKET :: string
  b64decode :: "string \<Rightarrow> string + bytes"
  upload :: "string \<Rightarrow> string \<Rightarrow> bytes \<Rightarrow> upload_outcome"
  get_public_url :: "string \<Rightarrow> string \<Rightarrow> string + string"
  execute_raises :: "string option"
  commit_raises :: "string option"
  fetchone_raises :: "string option"
  print_raises :: "string option"
  int_validator :: "json \<Rightarrow> int option"
  str_validator :: "json \<Rightarrow> string option"

record state =
  uploads :: "(string \<times> string \<times> bytes) list"
  questions :: "question_row list"
  questions_id_seq :: int

subsection \<open>The loop over the items (lines 123 to 152)\<close>

definition is_image :: "DataItem \<Rightarrow> bool" where
  "is_image item = (lower (item_type item) = ''image'')"

definition object_name :: "string \<Rightarrow> int \<Rightarrow> string" where
  "object_name question_uuid image_counter =
     question_uuid @ ''_'' @ str_int image_counter @ ''.png''"

definition passthrough :: "DataItem \<Rightarrow> ProcessedItem" where
  "passthrough item = \<lparr>p_id = item_id item, p_type = item_type item, p_value = item_value item\<rparr>"

fun process_items ::
  "env \<Rightarrow> string \<Rightarrow> DataItem list \<Rightarrow> ProcessedItem list \<Rightarrow> int \<Rightarrow> state
     \<Rightarrow> (exn + ProcessedItem list) \<times> state" where
  "process_items env question_uuid [] processed_data image_counter st = (Inr processed_data, st)"
| "process_items env question_uuid (item # rest) processed_data image_counter st =
     (if lower (item_type item) = ''image'' then
        (case b64decode env (item_value item) of
           Inl e \<Rightarrow> (Inl (HTTPException 400 (''Error decoding image data: '' @ e)), st)
         | Inr image_bytes \<Rightarrow>
             let filename = question_uuid @ ''_'' @ str_int image_counter @ ''.png'';
                 st1 = st\<lparr>uploads := uploads st @ [(IMAGE_BUCKET env, filename, image_bytes)]\<rparr>
             in (case upload env (IMAGE_BUCKET env) filename image_bytes of
                   UploadRaises e \<Rightarrow> (Inl (HTTPException 500 (''Error uploading image: '' @ e)), st1)
                 | UploadFalsy e \<Rightarrow> (Inl (HTTPException 500 (''Error uploading image: '' @ e)), st1)
                 | UploadTruthy \<Rightarrow>
                     (case get_public_url env (IMAGE_BUCKET env) filename of
                        Inl e \<Rightarrow> (Inl (Exception e), st1)
                      | Inr public_url \<Rightarrow>
                          process_items env question_uuid rest
                            (processed_data @
                               [\<lparr>p_id = item_id item, p_type = item_type item, p_value = public_url\<rparr>])
                            (image_counter + 1) st1)))
      else
        process_items env question_uuid rest
          (processed_data @
             [\<lparr>p_id = item_id item, p_type = item_type item, p_value = item_value item\<rparr>])
          image_counter st)"

subsection \<open>The insert (lines 166 to 187)\<close>

text \<open>
  The connection is opened for the request, so the transaction starts empty. A transaction
  is the list of rows inserted and not yet committed. \<^verbatim>\<open>question_id\<close> is \<^verbatim>\<open>UNIQUE\<close>:
  an insert of a value the table holds fails, after the sequence gave out a key.
\<close>

text \<open>
  The driver writes a Python tuple into the statement as the parenthesised list of its
  elements. A tuple of one element, \<^verbatim>\<open>(x,)\<close>, becomes the SQL expression \<^verbatim>\<open>(x)\<close>,
  whose value is that of \<^verbatim>\<open>x\<close>; a list becomes an array and a string a text.
  \<open>sql_value\<close> is the value the column holds for a parameter (a longer tuple, which the
  handler never builds, stays a row of values).
\<close>

fun sql_value :: "pyval \<Rightarrow> pyval" where
  "sql_value (PyStr s) = PyStr s"
| "sql_value (PyList xs) = PyList (map sql_value xs)"
| "sql_value (PyTuple [x]) = sql_value x"
| "sql_value (PyTuple xs) = PyTuple (map sql_value xs)"

definition stored_columns :: "question_record \<Rightarrow> question_record" where
  "stored_columns r =
     r\<lparr>rec_materia := sql_value (rec_materia r), rec_assunto := sql_value (rec_assunto r),
       rec_sub_assunto := sql_value (rec_sub_assunto r),
       rec_faculdade := sql_value (rec_faculdade r), rec_ano := sql_value (rec_ano r)\<rparr>"

definition unique_violation :: string where
  "unique_violation = ''duplicate key value violates unique constraint questions_question_id_key''"

definition cursor_execute ::
  "env \<Rightarrow> question_record \<Rightarrow> state \<times> question_row list
     \<Rightarrow> (string + int) \<times> state \<times> question_row list" where
  "cursor_execute env record db =
     (case db of (st, txn) \<Rightarrow>
        (case execute_raises env of
           Some e \<Rightarrow> (Inl e, st, txn)
         | None \<Rightarrow>
             let new_id = questions_id_seq st;
                 st1 = st\<lparr>questions_id_seq := new_id + 1\<rparr>
             in if rec_question_id record \<in> set (map rec_question_id (questions st @ txn))
                then (Inl unique_violation, st1, txn)
                else (Inr new_id, st1, txn @ [make_row new_id (stored_columns record)])))"

definition db_commit ::
  "env \<Rightarrow> state \<times> question_row list \<Rightarrow> string option \<times> state \<times> question_row list" where
  "db_commit env db =
     (case db of (st, txn) \<Rightarrow>
        (case commit_raises env of
           Some e \<Rightarrow> (Some e, st, txn)
         | None \<Rightarrow> (None, st\<lparr>questions := questions st @ txn\<rparr>, [])))"

definition db_rollback :: "state \<times> question_row list \<Rightarrow> state \<times> question_row list" where
  "db_rollback db = (case db of (st, txn) \<Rightarrow> (st, []))"

text \<open>The body of the \<^verbatim>\<open>try\<close> block: \<open>Inl\<close> holds the text of the exception raised.\<close>

definition try_insert ::
  "env \<Rightarrow> question_record \<Rightarrow> state \<times> question_row list
     \<Rightarrow> (string + int) \<times> state \<times> question_row list" where
  "try_insert env record db =
     (case cursor_execute env record db of
        (Inl e, db1) \<Rightarrow> (Inl e, db1)
      | (Inr returned_id, db1) \<Rightarrow>
          (case db_commit env db1 of
             (Some e, db2) \<Rightarrow> (Inl e, db2)
           | (None, db2) \<Rightarrow>
               (case fetchone_raises env of
                  Some e \<Rightarrow> (Inl e, db2)
                | None \<Rightarrow>
                    (case print_raises env of
                       Some e \<Rightarrow> (Inl e, db2)
                     | None \<Rightarrow> (Inr returned_id, db2)))))"

subsection \<open>The handler\<close>

text \<open>Lines 116 to 120 end in a comma each, so every one of the five variables is bound to
  a tuple of one element; the dictionary \<^verbatim>\<open>record\<close> holds these tuples, and the insert
  stores their elements.\<close>

definition create_submission :: "env \<Rightarrow> Submission \<Rightarrow> state \<Rightarrow> (exn + response) \<times> state" where
  "create_submission env submission st =
     (let question_uuid = uuid4 env;
          materia_v = PyTuple [py_str_list (materia (filter_model submission))];
          assunto_v = PyTuple [py_str_list (assunto (filter_model submission))];
          sub_assunto_v = PyTuple [py_str_list (subAssunto (filter_model submission))];
          faculdade_v = PyTuple [PyStr (faculdade (filter_model submission))];
          ano_v = PyTuple [PyStr (ano (filter_model submission))]
      in (case process_items env question_uuid (data submission) [] 1 st of
            (Inl e, st1) \<Rightarrow> (Inl e, st1)
          | (Inr processed_data, st1) \<Rightarrow>
              let record = \<lparr>rec_question_id = question_uuid, rec_materia = materia_v,
                             rec_assunto = assunto_v, rec_sub_assunto = sub_assunto_v,
                             rec_faculdade = faculdade_v, rec_ano = ano_v,
                             rec_data = processed_data\<rparr>
              in (case try_insert env record (st1, []) of
                    (Inl e, db1) \<Rightarrow>
                      (Inl (HTTPException 500 (''Error inserting record: '' @ e)),
                       fst (db_rollback db1))
                  | (Inr inserted_id, db1) \<Rightarrow>
                      (Inr \<lparr>message = ''Submission created successfully'',
                            submission_id = inserted_id\<rparr>, fst db1))))"

subsection \<open>The route (lines 85 to 110)\<close>

text \<open>
  The function is registered with \<^verbatim>\<open>@app.post("/questions")\<close> and its parameter is
  annotated with the model \<^verbatim>\<open>Submission\<close>: the framework validates the body against the
  three model classes before it calls the function. An error is the path of the field it
  is about. Every field is required; a later key of an object hides an earlier equal one.
\<close>

type_synonym loc = "string list"

definition both :: "loc list + 'a \<Rightarrow> loc list + 'b \<Rightarrow> loc list + 'a \<times> 'b" where
  "both a b =
     (case a of
        Inl e \<Rightarrow> (case b of Inl e' \<Rightarrow> Inl (e @ e') | Inr y \<Rightarrow> Inl e)
      | Inr x \<Rightarrow> (case b of Inl e' \<Rightarrow> Inl e' | Inr y \<Rightarrow> Inr (x, y)))"

fun all_of :: "(loc list + 'a) list \<Rightarrow> loc list + 'a list" where
  "all_of [] = Inr []"
| "all_of (r # rs) = (case both r (all_of rs) of Inl e \<Rightarrow> Inl e | Inr (x, xs) \<Rightarrow> Inr (x # xs))"

definition required :: "(string \<times> json) list \<Rightarrow> string \<Rightarrow> loc \<Rightarrow> (loc \<Rightarrow> json \<Rightarrow> loc list + 'a)
     \<Rightarrow> loc list + 'a" where
  "required kvs key loc v =
     (case map_of (rev kvs) key of None \<Rightarrow> Inl [loc @ [key]] | Some j \<Rightarrow> v (loc @ [key]) j)"

definition validate_int :: "env \<Rightarrow> loc \<Rightarrow> json \<Rightarrow> loc list + int" where
  "validate_int env loc j = (case int_validator env j of None \<Rightarrow> Inl [loc] | Some i \<Rightarrow> Inr i)"

definition validate_str :: "env \<Rightarrow> loc \<Rightarrow> json \<Rightarrow> loc list + string" where
  "validate_str env loc j = (case str_validator env j of None \<Rightarrow> Inl [loc] | Some s \<Rightarrow> Inr s)"

definition validate_list :: "(loc \<Rightarrow> json \<Rightarrow> loc list + 'a) \<Rightarrow> loc \<Rightarrow> json \<Rightarrow> loc list + 'a list" where
  "validate_list v loc j =
     (case j of
        JArr xs \<Rightarrow> all_of (map (\<lambda>(i, x). v (loc @ [str_nat i]) x) (zip [0..<length xs] xs))
      | _ \<Rightarrow> Inl [loc])"

definition validate_FilterModel :: "env \<Rightarrow> loc \<Rightarrow> json \<Rightarrow> loc list + FilterModel" where
  "validate_FilterModel env loc j =
     (case j of
        JObj kvs \<Rightarrow>
          (case both (required kvs ''materia'' loc (validate_list (validate_str env)))
                 (both (required kvs ''assunto'' loc (validate_list (validate_str env)))
                 (both (required kvs ''subAssunto'' loc (validate_list (validate_str env)))
                 (both (required kvs ''faculdade'' loc (validate_str env))
                       (required kvs ''ano'' loc (validate_str env))))) of
             Inl e \<Rightarrow> Inl e
           | Inr (m, a, s, f, y) \<Rightarrow>
               Inr \<lparr>materia = m, assunto = a, subAssunto = s, faculdade = f, ano = y\<rparr>)
      | _ \<Rightarrow> Inl [loc])"

definition validate_DataItem :: "env \<Rightarrow> loc \<Rightarrow> json \<Rightarrow> loc list + DataItem" where
  "validate_DataItem env loc j =
     (case j of
        JObj kvs \<Rightarrow>
          (case both (required kvs ''id'' loc (validate_int env))
                 (both (required kvs ''value'' loc (validate_str env))
                       (required kvs ''type'' loc (validate_str env))) of
             Inl e \<Rightarrow> Inl e
           | Inr (i, v, t) \<Rightarrow> Inr \<lparr>item_id = i, item_value = v, item_type = t\<rparr>)
      | _ \<Rightarrow> Inl [loc])"

definition validate_Submission :: "env \<Rightarrow> json \<Rightarrow> loc list + Submission" where
  "validate_Submission env j =
     (case j of
        JObj kvs \<Rightarrow>
          (case both (required kvs ''data'' [''body''] (validate_list (validate_DataItem env)))
                     (required kvs ''filter'' [''body''] (validate_FilterModel env)) of
             Inl e \<Rightarrow> Inl e
           | Inr (d, f) \<Rightarrow> Inr \<lparr>data = d, filter_model = f\<rparr>)
      | _ \<Rightarrow> Inl [[''body'']])"

text \<open>
  The shape of \<^verbatim>\<open>Submission\<close> said directly: a body matches when it is an object whose
  \<^verbatim>\<open>data\<close> is an array of objects with an \<^verbatim>\<open>id\<close> the int conversion takes and a
  \<^verbatim>\<open>value\<close> and a \<^verbatim>\<open>type\<close> the str conversion takes, and whose \<^verbatim>\<open>filter\<close> is an
  object with three arrays of such strings and two such strings. A field is missing when
  the object has no such key, and mistyped when the conversion refuses its value.
\<close>

definition has_field :: "(string \<times> json) list \<Rightarrow> string \<Rightarrow> (json \<Rightarrow> bool) \<Rightarrow> bool" where
  "has_field kvs key ok = (case map_of (rev kvs) key of None \<Rightarrow> False | Some j \<Rightarrow> ok j)"

definition int_typed :: "env \<Rightarrow> json \<Rightarrow> bool" where
  "int_typed env j = (int_validator env j \<noteq> None)"

definition str_typed :: "env \<Rightarrow> json \<Rightarrow> bool" where
  "str_typed env j = (str_validator env j \<noteq> None)"

definition array_of :: "(json \<Rightarrow> bool) \<Rightarrow> json \<Rightarrow> bool" where
  "array_of ok j = (case j of JArr xs \<Rightarrow> list_all ok xs | _ \<Rightarrow> False)"

definition matches_DataItem :: "env \<Rightarrow> json \<Rightarrow> bool" where
  "matches_DataItem env j =
     (case j of
        JObj kvs \<Rightarrow>
          has_field kvs ''id'' (int_typed env) \<and> has_field kvs ''value'' (str_typed env) \<and>
          has_field kvs ''type'' (str_typed env)
      | _ \<Rightarrow> False)"

definition matches_FilterModel :: "env \<Rightarrow> json \<Rightarrow> bool" where
  "matches_FilterModel env j =
     (case j of
        JObj kvs \<Rightarrow>
          has_field kvs ''materia'' (array_of (str_typed env)) \<and>
          has_field kvs ''assunto'' (array_of (str_typed env)) \<and>
          has_field kvs ''subAssunto'' (array_of (str_typed env)) \<and>
          has_field kvs ''faculdade'' (str_typed env) \<and> has_field kvs ''ano'' (str_typed env)
      | _ \<Rightarrow> False)"

definition matches_Submission :: "env \<Rightarrow> json \<Rightarrow> bool" where
  "matches_Submission env j =
     (case j of
        JObj kvs \<Rightarrow>
          has_field kvs ''data'' (array_of (matches_DataItem env)) \<and>
          has_field kvs ''filter'' (matches_FilterModel env)
      | _ \<Rightarrow> False)"

text \<open>
  The conversions as pydantic makes them by default: to \<^verbatim>\<open>int\<close> from an integer, a
  boolean, a float without fraction and a string of decimal digits with an optional sign;
  to \<^verbatim>\<open>str\<close> from a string only.
\<close>

fun parse_digits :: "nat \<Rightarrow> string \<Rightarrow> nat option" where
  "parse_digits acc [] = Some acc"
| "parse_digits acc (c # cs) =
     (case index_from 0 c ''0123456789'' of
        None \<Rightarrow> None
      | Some d \<Rightarrow> parse_digits (acc * 10 + d) cs)"

definition int_of_string :: "string \<Rightarrow> int option" where
  "int_of_string s =
     (case s of
        [] \<Rightarrow> None
      | c # cs \<Rightarrow>
          if c = CHR ''-'' then (if cs = [] then None else map_option (\<lambda>n. - int n) (parse_digits 0 cs))
          else if c = CHR ''+'' then (if cs = [] then None else map_option int (parse_digits 0 cs))
          else map_option int (parse_digits 0 s))"

definition lax_int :: "json \<Rightarrow> int option" where
  "lax_int j =
     (case j of
        JInt i \<Rightarrow> Some i
      | JBool b \<Rightarrow> Some (if b then 1 else 0)
      | JFloat r \<Rightarrow> (if of_int \<lfloor>r\<rfloor> = r then Some \<lfloor>r\<rfloor> else None)
      | JStr s \<Rightarrow> int_of_string s
      | _ \<Rightarrow> None)"

definition only_str :: "json \<Rightarrow> string option" where
  "only_str j = (case j of JStr s \<Rightarrow> Some s | _ \<Rightarrow> None)"

text \<open>
  What the caller receives. No exception handler is installed on \<^verbatim>\<open>app\<close>, so the
  framework's own apply: a body that fails validation is answered with status 422 and the
  list of errors as detail, and the function is not called; a returned dictionary is the
  body of a 200; an \<^verbatim>\<open>HTTPException\<close> gives its status code and \<^verbatim>\<open>{"detail": ...}\<close>; any
  other exception gives the server's plain 500.
\<close>

datatype http_body =
  SuccessBody string int | Detail string | DetailErrors "loc list" | PlainText string

fun http_response :: "exn + response \<Rightarrow> int \<times> http_body" where
  "http_response (Inr r) = (200, SuccessBody (message r) (submission_id r))"
| "http_response (Inl (HTTPException status_code detail)) = (status_code, Detail detail)"
| "http_response (Inl (Exception e)) = (500, PlainText ''Internal Server Error'')"

definition post_questions :: "env \<Rightarrow> json \<Rightarrow> state \<Rightarrow> (int \<times> http_body) \<times> state" where
  "post_questions env body st =
     (case validate_Submission env body of
        Inl errors \<Rightarrow> ((422, DetailErrors errors), st)
      | Inr submission \<Rightarrow>
          (case create_submission env submission st of (r, st') \<Rightarrow> (http_response r, st')))"

subsection \<open>The constraints of the table\<close>

text \<open>\<^verbatim>\<open>question_id\<close> is \<^verbatim>\<open>UNIQUE\<close>, \<^verbatim>\<open>id\<close> is the primary key, and every key in
  the table was drawn from the sequence.\<close>

definition table_consistent :: "state \<Rightarrow> bool" where
  "table_consistent st \<longleftrightarrow>
     distinct (map rec_question_id (questions st)) \<and>
     distinct (map row_id (questions st)) \<and>
     (\<forall>r \<in> set (questions st). row_id r < questions_id_seq st)"

subsection \<open>A concrete request\<close>

text \<open>The scenario of the specification: a text item and an image item, the decoder of the
  standard library, a store that accepts every upload and answers every URL lookup, a
  database that works, and pydantic's conversions.\<close>

definition example_env :: env where
  "example_env =
     \<lparr>uuid4 = ''6fa459ea-ee8a-3ca4-894e-db77e160355e'',
      IMAGE_BUCKET = ''vupi-questions-images'',
      b64decode = base64_b64decode,
      upload = (\<lambda>bucket name content. UploadTruthy),
      get_public_url = (\<lambda>bucket name. Inr (''https://store/'' @ bucket @ ''/'' @ name)),
      execute_raises = None, commit_raises = None, fetchone_raises = None, print_raises = None,
      int_validator = lax_int,
      str_validator = only_str\<rparr>"

definition example_state :: state where
  "example_state = \<lparr>uploads = [], questions = [], questions_id_seq = 1\<rparr>"

text \<open>A table that already holds a row.\<close>

definition populated_state :: state where
  "populated_state =
     \<lparr>uploads = [],
      questions = [make_row 1 \<lparr>rec_question_id = ''0b0e7a3c-5d6f-4c1e-9a57-3f2f8f0e6d11'',
                     rec_materia = PyList [PyStr ''physics''],
                     rec_assunto = PyList [], rec_sub_assunto = PyList [],
                     rec_faculdade = PyStr ''Y'', rec_ano = PyStr ''2023'',
                     rec_data = []\<rparr>],
      questions_id_seq = 2\<rparr>"

definition example_filter :: FilterModel where
  "example_filter =
     \<lparr>materia = [''math''], assunto = [''algebra''], subAssunto = [],
      faculdade = ''X'', ano = ''2024''\<rparr>"

definition example_submission :: Submission where
  "example_submission =
     \<lparr>data = [\<lparr>item_id = 1, item_value = ''aGVsbG8='', item_type = ''text''\<rparr>,
              \<lparr>item_id = 2, item_value = ''aGk='', item_type = ''Image''\<rparr>],
      filter_model = example_filter\<rparr>"

definition example_body :: json where
  "example_body =
     JObj [(''data'', JArr [JObj [(''id'', JInt 1), (''value'', JStr ''aGVsbG8=''), (''type'', JStr ''text'')],
                            JObj [(''id'', JInt 2), (''value'', JStr ''aGk=''), (''type'', JStr ''Image'')]]),
           (''filter'', JObj [(''materia'', JArr [JStr ''math'']), (''assunto'', JArr [JStr ''algebra'']),
                              (''subAssunto'', JArr []), (''faculdade'', JStr ''X''),
                              (''ano'', JStr ''2024'')])]"

text \<open>Two images around a text item; an image that does not decode between two that do;
  text only; no item at all.\<close>

definition interleaved_submission :: Submission where
  "interleaved_submission =
     \<lparr>data = [\<lparr>item_id = 7, item_value = ''aGk='', item_type = ''image''\<rparr>,
              \<lparr>item_id = 8, item_value = ''between'', item_type = ''text''\<rparr>,
              \<lparr>item_id = 9, item_value = ''eW8='', item_type = ''IMAGE''\<rparr>],
      filter_model = example_filter\<rparr>"

definition broken_image_submission :: Submission where
  "broken_image_submission =
     \<lparr>data = [\<lparr>item_id = 1, item_value = ''first'', item_type = ''text''\<rparr>,
              \<lparr>item_id = 2, item_value = ''aGk='', item_type = ''image''\<rparr>,
              \<lparr>item_id = 3, item_value = ''a'', item_type = ''image''\<rparr>,
              \<lparr>item_id = 4, item_value = ''eW8='', item_type = ''image''\<rparr>],
      filter_model = example_filter\<rparr>"

definition text_only_submission :: Submission where
  "text_only_submission =
     \<lparr>data = [\<lparr>item_id = 1, item_value = ''aGVsbG8='', item_type = ''text''\<rparr>,
              \<lparr>item_id = 2, item_value = ''2 + 2'', item_type = ''formula''\<rparr>],
      filter_model = example_filter\<rparr>"

definition empty_submission :: Submission where
  "empty_submission = \<lparr>data = [], filter_model = example_filter\<rparr>"

text \<open>The body of a request with no item, and a body without the key \<^verbatim>\<open>filter\<close>.\<close>

definition empty_data_body :: json where
  "empty_data_body =
     JObj [(''data'', JArr []),
           (''filter'', JObj [(''materia'', JArr [JStr ''math'']), (''assunto'', JArr [JStr ''algebra'']),
                              (''subAssunto'', JArr []), (''faculdade'', JStr ''X''),
                              (''ano'', JStr ''2024'')])]"

definition body_without_filter :: json where
  "body_without_filter = JObj [(''data'', JArr [])]"

text \<open>A database whose cursor fails to hand back the row after the commit, and a standard
  output that cannot print the record.\<close>

definition fetch_failure_env :: env where
  "fetch_failure_env = example_env\<lparr>fetchone_raises := Some ''no results to fetch''\<rparr>"

definition print_failure_env :: env where
  "print_failure_env = example_env\<lparr>print_raises := Some ''charmap codec cannot encode character''\<rparr>"

text \<open>A store that refuses every upload: the call raises.\<close>

definition upload_failure_env :: env where
  "upload_failure_env =
     example_env\<lparr>upload := (\<lambda>bucket name content. UploadRaises ''Bucket not found'')\<rparr>"

text \<open>An image whose value is no base64 at all, and a body whose \<^verbatim>\<open>id\<close> is a string of
  digits.\<close>

definition lenient_image_submission :: Submission where
  "lenient_image_submission =
     \<lparr>data = [\<lparr>item_id = 1, item_value = ''!!!!'', item_type = ''image''\<rparr>],
      filter_model = example_filter\<rparr>"

definition body_with_string_id :: json where
  "body_with_string_id =
     JObj [(''data'', JArr [JObj [(''id'', JStr ''1''), (''value'', JStr ''aGVsbG8=''),
                                  (''type'', JStr ''text'')]]),
           (''filter'', JObj [(''materia'', JArr [JStr ''math'']), (''assunto'', JArr [JStr ''algebra'']),
                              (''subAssunto'', JArr []), (''faculdade'', JStr ''X''),
                              (''ano'', JStr ''2024'')])]"

definition body_with_word_id :: json where
  "body_with_word_id =
     JObj [(''data'', JArr [JObj [(''id'', JStr ''one''), (''value'', JStr ''aGVsbG8=''),
                                  (''type'', JStr ''text'')]]),
           (''filter'', JObj [(''materia'', JArr [JStr ''math'']), (''assunto'', JArr [JStr ''algebra'']),
                              (''subAssunto'', JArr []), (''faculdade'', JStr ''X''),
                              (''ano'', JStr ''2024'')])]"

section \<open>Values of the decoder\<close>

lemma example_decodings [simp]:
  "base64_b64decode ''aGk='' = Inr [104, 105]"
  "base64_b64decode ''eW8='' = Inr [121, 111]"
  "base64_b64decode ''!!!!'' = Inr []"
  "base64_b64decode ''a'' =
     Inl ''Invalid base64-encoded string: number of data characters (1) cannot be 1 more than a multiple of 4''"
  by (simp_all add: base64_b64decode_def table_a2b_base64_def str_nat.simps digit_char_def)

section \<open>Properties of the loop\<close>

lemma filter_nth_of_take:
  assumes "i < length xs" "P (xs ! i)"
  shows "length (filter P (take i xs)) < length (filter P xs) \<and>
         filter P xs ! length (filter P (take i xs)) = xs ! i"
proof -
  from assms(1) have "xs = take i xs @ xs ! i # drop (Suc i) xs"
    by (rule id_take_nth_drop)
  then have "filter P xs = filter P (take i xs @ xs ! i # drop (Suc i) xs)"
    by simp
  with assms(2) have "filter P xs = filter P (take i xs) @ xs ! i # filter P (drop (Suc i) xs)"
    by simp
  then show ?thesis
    by (metis length_append length_Cons nth_append_length less_add_Suc1 add_Suc_right)
qed

lemma process_items_Cons_Inr:
  "process_items env q (item # rest) acc n st = (Inr out, st') \<longleftrightarrow>
     (if is_image item then
        (\<exists>content url.
           b64decode env (item_value item) = Inr content \<and>
           upload env (IMAGE_BUCKET env) (object_name q n) content = UploadTruthy \<and>
           get_public_url env (IMAGE_BUCKET env) (object_name q n) = Inr url \<and>
           process_items env q rest
             (acc @ [\<lparr>p_id = item_id item, p_type = item_type item, p_value = url\<rparr>]) (n + 1)
             (st\<lparr>uploads := uploads st @ [(IMAGE_BUCKET env, object_name q n, content)]\<rparr>)
           = (Inr out, st'))
      else process_items env q rest (acc @ [passthrough item]) n st = (Inr out, st'))"
  by (auto simp: is_image_def object_name_def passthrough_def Let_def
           split: sum.splits upload_outcome.splits)

lemma process_items_frame:
  "process_items env q items acc n st = (r, st') \<Longrightarrow>
     questions st' = questions st \<and> questions_id_seq st' = questions_id_seq st"
  by (induction items arbitrary: acc n st)
     (auto simp: Let_def split: if_splits sum.splits upload_outcome.splits)

lemma process_items_append:
  "process_items env q (xs @ ys) acc n st =
     (case process_items env q xs acc n st of
        (Inl e, st1) \<Rightarrow> (Inl e, st1)
      | (Inr out, st1) \<Rightarrow>
          process_items env q ys out (n + int (length (filter is_image xs))) st1)"
proof (induction xs arbitrary: acc n st)
  case Nil
  show ?case by simp
next
  case (Cons item rest)
  show ?case
  proof (cases "is_image item")
    case True
    then show ?thesis
      using Cons.IH
      by (simp add: is_image_def [symmetric] Let_def add.assoc
               split: sum.splits upload_outcome.splits prod.splits)
  next
    case False
    then show ?thesis
      using Cons.IH
      by (simp add: is_image_def [symmetric] split: sum.splits prod.splits)
  qed
qed

lemma process_items_Cons_image_decode_error:
  "is_image item \<Longrightarrow> b64decode env (item_value item) = Inl e \<Longrightarrow>
     process_items env q (item # rest) acc n st =
       (Inl (HTTPException 400 (''Error decoding image data: '' @ e)), st)"
  by (simp add: is_image_def)

text \<open>Whatever the outcome, the calls logged are for an initial segment of the image items.\<close>

lemma process_items_uploads:
  "process_items env q items acc n st = (r, st') \<Longrightarrow>
     \<exists>new. uploads st' = uploads st @ new \<and> length new \<le> length (filter is_image items) \<and>
       map fst new = replicate (length new) (IMAGE_BUCKET env) \<and>
       map (\<lambda>c. fst (snd c)) new = map (object_name q) [n..n + int (length new) - 1] \<and>
       map (\<lambda>c. Inr (snd (snd c))) new =
         take (length new) (map (\<lambda>i. b64decode env (item_value i)) (filter is_image items))"
proof (induction items arbitrary: acc n st)
  case Nil
  then show ?case by simp
next
  case (Cons item rest)
  show ?case
  proof (cases "is_image item")
    case False
    with Cons.prems have "process_items env q rest (acc @ [passthrough item]) n st = (r, st')"
      by (simp add: is_image_def passthrough_def)
    from Cons.IH [OF this] False show ?thesis by simp
  next
    case True
    let ?B = "IMAGE_BUCKET env"
    show ?thesis
    proof (cases "b64decode env (item_value item)")
      case (Inl e)
      with True Cons.prems have "st' = st"
        by (simp add: is_image_def)
      then show ?thesis by simp
    next
      case (Inr content)
      let ?call = "(?B, object_name q n, content)"
      let ?st1 = "st\<lparr>uploads := uploads st @ [?call]\<rparr>"
      have one: "\<exists>new. uploads ?st1 = uploads st @ new \<and>
          length new \<le> length (filter is_image (item # rest)) \<and>
          map fst new = replicate (length new) ?B \<and>
          map (\<lambda>c. fst (snd c)) new = map (object_name q) [n..n + int (length new) - 1] \<and>
          map (\<lambda>c. Inr (snd (snd c))) new =
            take (length new) (map (\<lambda>i. b64decode env (item_value i)) (filter is_image (item # rest)))"
        using True Inr by (intro exI [of _ "[?call]"]) simp
      show ?thesis
      proof (cases "\<exists>url. upload env ?B (object_name q n) content = UploadTruthy \<and>
                      get_public_url env ?B (object_name q n) = Inr url")
        case False
        with True Inr Cons.prems have eq: "st' = ?st1"
          by (auto simp: is_image_def object_name_def Let_def
                   split: upload_outcome.splits sum.splits)
        show ?thesis unfolding eq by (rule one)
      next
        case ok: True
        then obtain url where
          u: "upload env ?B (object_name q n) content = UploadTruthy" and
          g: "get_public_url env ?B (object_name q n) = Inr url"
          by blast
        from True Inr u g Cons.prems have
          "process_items env q rest
             (acc @ [\<lparr>p_id = item_id item, p_type = item_type item, p_value = url\<rparr>]) (n + 1) ?st1
           = (r, st')"
          by (simp add: is_image_def object_name_def Let_def)
        from Cons.IH [OF this] obtain new where
          n1: "uploads st' = uploads ?st1 @ new" and
          n2: "length new \<le> length (filter is_image rest)" and
          n3: "map fst new = replicate (length new) ?B" and
          n4: "map (\<lambda>c. fst (snd c)) new = map (object_name q) [n + 1..n + 1 + int (length new) - 1]" and
          n5: "map (\<lambda>c. Inr (snd (snd c))) new =
                 take (length new) (map (\<lambda>i. b64decode env (item_value i)) (filter is_image rest))"
          by blast
        have up: "[n..n + int (length (?call # new)) - 1] = n # [n + 1..n + 1 + int (length new) - 1]"
          by (subst upto_rec1) (simp_all add: algebra_simps)
        show ?thesis
          using True Inr n1 n2 n3 n4 n5 up
          by (intro exI [of _ "?call # new"]) simp
      qed
    qed
  qed
qed


lemma process_items_success_count:
  "process_items env q items acc n st = (Inr out, st') \<Longrightarrow>
     length (uploads st') = length (uploads st) + length (filter is_image items)"
  by (induction items arbitrary: acc n st) (auto simp: process_items_Cons_Inr simp del: process_items.simps(2))

lemma process_items_prefix:
  "process_items env q items acc n st = (Inr out, st') \<Longrightarrow>
     length out = length acc + length items \<and> take (length acc) out = acc"
proof (induction items arbitrary: acc n st)
  case Nil
  then show ?case by simp
next
  case (Cons item rest)
  from Cons.prems obtain x n1 st1 where
    rec: "process_items env q rest (acc @ [x]) n1 st1 = (Inr out, st')"
    by (auto simp: process_items_Cons_Inr simp del: process_items.simps(2) split: if_splits)
  from Cons.IH [OF rec] have
    len: "length out = length (acc @ [x]) + length rest" and
    tk: "take (length (acc @ [x])) out = acc @ [x]"
    by blast+
  from tk have "take (length acc) (take (length (acc @ [x])) out) = take (length acc) (acc @ [x])"
    by simp
  then have "take (length acc) out = acc" by simp
  with len show ?case by simp
qed

lemma process_items_nth:
  "process_items env q items acc n st = (Inr out, st') \<Longrightarrow> i < length items \<Longrightarrow>
     p_id (out ! (length acc + i)) = item_id (items ! i) \<and>
     p_type (out ! (length acc + i)) = item_type (items ! i) \<and>
     (if is_image (items ! i)
      then get_public_url env (IMAGE_BUCKET env)
             (object_name q (n + int (length (filter is_image (take i items)))))
           = Inr (p_value (out ! (length acc + i)))
      else p_value (out ! (length acc + i)) = item_value (items ! i))"
proof (induction items arbitrary: acc n st i)
  case Nil
  then show ?case by simp
next
  case (Cons item rest)
  define x where "x = out ! length acc"
  define n1 where "n1 = (if is_image item then n + 1 else n)"
  from Cons.prems(1) obtain st1 y where
    rec: "process_items env q rest (acc @ [y]) n1 st1 = (Inr out, st')" and
    y: "p_id y = item_id item" "p_type y = item_type item"
       "if is_image item
        then get_public_url env (IMAGE_BUCKET env) (object_name q n) = Inr (p_value y)
        else p_value y = item_value item"
    unfolding n1_def
    by (auto simp: process_items_Cons_Inr passthrough_def simp del: process_items.simps(2)
             split: if_splits)
  from process_items_prefix [OF rec] have "take (length (acc @ [y])) out = acc @ [y]"
    by blast
  then have "take (length (acc @ [y])) out ! length acc = (acc @ [y]) ! length acc"
    by simp
  then have here: "out ! length acc = y"
    by simp
  show ?case
  proof (cases i)
    case 0
    with here y show ?thesis by simp
  next
    case (Suc j)
    with Cons.prems(2) have "j < length rest" by simp
    from Cons.IH [OF rec this] Suc show ?thesis
      by (auto simp: n1_def add.assoc split: if_splits)
  qed
qed

lemma process_items_no_image:
  "filter is_image items = [] \<Longrightarrow>
     process_items env q items acc n st = (Inr (acc @ map passthrough items), st)"
  by (induction items arbitrary: acc) (auto simp: is_image_def passthrough_def split: if_splits)

lemma process_items_Inl:
  assumes "\<forall>bucket name. \<exists>url. get_public_url env bucket name = Inr url"
    and "process_items env q items acc n st = (Inl e, st')"
  shows "(\<exists>item d. item \<in> set items \<and> is_image item \<and>
            b64decode env (item_value item) = Inl d \<and>
            e = HTTPException 400 (''Error decoding image data: '' @ d)) \<or>
         (\<exists>call d. call \<in> set (uploads st') \<and>
            (upload env (fst call) (fst (snd call)) (snd (snd call)) = UploadRaises d \<or>
             upload env (fst call) (fst (snd call)) (snd (snd call)) = UploadFalsy d) \<and>
            e = HTTPException 500 (''Error uploading image: '' @ d))"
  using assms(2)
proof (induction items arbitrary: acc n st)
  case Nil
  then show ?case by simp
next
  case (Cons item rest)
  show ?case
  proof (cases "is_image item")
    case False
    with Cons.prems have "process_items env q rest (acc @ [passthrough item]) n st = (Inl e, st')"
      by (simp add: is_image_def passthrough_def)
    from Cons.IH [OF this] show ?thesis by auto
  next
    case True
    let ?B = "IMAGE_BUCKET env"
    show ?thesis
    proof (cases "b64decode env (item_value item)")
      case (Inl d)
      with True Cons.prems have "e = HTTPException 400 (''Error decoding image data: '' @ d)"
        by (simp add: is_image_def)
      with True Inl show ?thesis by auto
    next
      case (Inr content)
      let ?st1 = "st\<lparr>uploads := uploads st @ [(?B, object_name q n, content)]\<rparr>"
      from assms(1) obtain url where url: "get_public_url env ?B (object_name q n) = Inr url"
        by blast
      show ?thesis
      proof (cases "upload env ?B (object_name q n) content")
        case (UploadRaises d)
        with True Inr Cons.prems have
          "e = HTTPException 500 (''Error uploading image: '' @ d)" "st' = ?st1"
          by (simp_all add: is_image_def object_name_def Let_def)
        with UploadRaises show ?thesis
          by (intro disjI2 exI [of _ "(?B, object_name q n, content)"] exI [of _ d]) simp
      next
        case (UploadFalsy d)
        with True Inr Cons.prems have
          "e = HTTPException 500 (''Error uploading image: '' @ d)" "st' = ?st1"
          by (simp_all add: is_image_def object_name_def Let_def)
        with UploadFalsy show ?thesis
          by (intro disjI2 exI [of _ "(?B, object_name q n, content)"] exI [of _ d]) simp
      next
        case UploadTruthy
        with True Inr url Cons.prems have
          "process_items env q rest
             (acc @ [\<lparr>p_id = item_id item, p_type = item_type item, p_value = url\<rparr>]) (n + 1) ?st1
           = (Inl e, st')"
          by (simp add: is_image_def object_name_def Let_def)
        from Cons.IH [OF this] show ?thesis by auto
      qed
    qed
  qed
qed

lemma process_items_Inr_all_ok:
  assumes "process_items env q items acc n st = (Inr out, st')"
  shows "(\<forall>item \<in> set items. is_image item \<longrightarrow> (\<exists>c. b64decode env (item_value item) = Inr c)) \<and>
         (\<forall>call \<in> set (drop (length (uploads st)) (uploads st')).
            upload env (fst call) (fst (snd call)) (snd (snd call)) = UploadTruthy)"
  using assms
proof (induction items arbitrary: acc n st)
  case Nil
  then show ?case by simp
next
  case (Cons item rest)
  show ?case
  proof (cases "is_image item")
    case False
    with Cons.prems have "process_items env q rest (acc @ [passthrough item]) n st = (Inr out, st')"
      by (simp add: process_items_Cons_Inr del: process_items.simps)
    from Cons.IH [OF this] False show ?thesis by simp
  next
    case True
    with Cons.prems obtain content url where
      d: "b64decode env (item_value item) = Inr content" and
      u: "upload env (IMAGE_BUCKET env) (object_name q n) content = UploadTruthy" and
      rec: "process_items env q rest
             (acc @ [\<lparr>p_id = item_id item, p_type = item_type item, p_value = url\<rparr>]) (n + 1)
             (st\<lparr>uploads := uploads st @ [(IMAGE_BUCKET env, object_name q n, content)]\<rparr>)
           = (Inr out, st')"
      by (auto simp: process_items_Cons_Inr simp del: process_items.simps)
    let ?call = "(IMAGE_BUCKET env, object_name q n, content)"
    from process_items_uploads [OF rec] obtain new where
      new: "uploads st' = (uploads st @ [?call]) @ new"
      by auto
    then have dr: "drop (length (uploads st)) (uploads st') = ?call # new"
      by simp
    from new have dr1: "drop (length (uploads st @ [?call])) (uploads st') = new"
      by simp
    from Cons.IH [OF rec] dr1 have
      ih: "\<forall>item \<in> set rest. is_image item \<longrightarrow> (\<exists>c. b64decode env (item_value item) = Inr c)"
        "\<forall>call \<in> set new. upload env (fst call) (fst (snd call)) (snd (snd call)) = UploadTruthy"
      by simp_all
    from ih d u dr show ?thesis by simp
  qed
qed

section \<open>Properties of the insert and of the handler\<close>

lemma make_row_fields [simp]:
  "row_id (make_row i r) = i"
  "rec_question_id (make_row i r) = rec_question_id r"
  "rec_materia (make_row i r) = rec_materia r"
  "rec_assunto (make_row i r) = rec_assunto r"
  "rec_sub_assunto (make_row i r) = rec_sub_assunto r"
  "rec_faculdade (make_row i r) = rec_faculdade r"
  "rec_ano (make_row i r) = rec_ano r"
  "rec_data (make_row i r) = rec_data r"
  by (simp_all add: make_row_def question_record.defs)

lemma stored_columns_fields [simp]:
  "rec_question_id (stored_columns r) = rec_question_id r"
  "rec_data (stored_columns r) = rec_data r"
  "rec_materia (stored_columns r) = sql_value (rec_materia r)"
  "rec_assunto (stored_columns r) = sql_value (rec_assunto r)"
  "rec_sub_assunto (stored_columns r) = sql_value (rec_sub_assunto r)"
  "rec_faculdade (stored_columns r) = sql_value (rec_faculdade r)"
  "rec_ano (stored_columns r) = sql_value (rec_ano r)"
  by (simp_all add: stored_columns_def)

lemma sql_value_py_str_list [simp]: "sql_value (py_str_list xs) = py_str_list xs"
  by (simp add: py_str_list_def)

lemma try_insert_Inr:
  "try_insert env record (st, []) = (Inr inserted_id, db1) \<longleftrightarrow>
     execute_raises env = None \<and> commit_raises env = None \<and>
     fetchone_raises env = None \<and> print_raises env = None \<and>
     rec_question_id record \<notin> set (map rec_question_id (questions st)) \<and>
     inserted_id = questions_id_seq st \<and>
     db1 = (st\<lparr>questions_id_seq := questions_id_seq st + 1,
               questions := questions st @
                 [make_row (questions_id_seq st) (stored_columns record)]\<rparr>, [])"
  by (auto simp: try_insert_def cursor_execute_def db_commit_def Let_def
           split: option.splits)

lemma create_submission_Inr:
  assumes "create_submission env submission st = (Inr resp, st')"
  shows "\<exists>out st1 row.
     process_items env (uuid4 env) (data submission) [] 1 st = (Inr out, st1) \<and>
     execute_raises env = None \<and> commit_raises env = None \<and>
     fetchone_raises env = None \<and> print_raises env = None \<and>
     uuid4 env \<notin> set (map rec_question_id (questions st)) \<and>
     resp = \<lparr>message = ''Submission created successfully'',
             submission_id = questions_id_seq st\<rparr> \<and>
     row_id row = questions_id_seq st \<and> rec_question_id row = uuid4 env \<and>
     rec_data row = out \<and>
     uploads st' = uploads st1 \<and>
     questions st' = questions st @ [row] \<and>
     questions_id_seq st' = questions_id_seq st + 1"
proof -
  from assms obtain out st1 where
    loop: "process_items env (uuid4 env) (data submission) [] 1 st = (Inr out, st1)"
    by (auto simp: create_submission_def Let_def split: prod.splits sum.splits)
  from process_items_frame [OF loop] have
    fr: "questions st1 = questions st" "questions_id_seq st1 = questions_id_seq st"
    by simp_all
  from assms loop fr show ?thesis
    by (auto simp: create_submission_def Let_def try_insert_Inr split: prod.splits sum.splits)
qed

lemma create_submission_loop_error:
  "process_items env (uuid4 env) (data submission) [] 1 st = (Inl e, st1) \<Longrightarrow>
     create_submission env submission st = (Inl e, st1)"
  by (simp add: create_submission_def Let_def)

lemma create_submission_frame:
  assumes "create_submission env submission st = (r, st')"
  shows "(questions st' = questions st \<or>
          (\<exists>row. questions st' = questions st @ [row] \<and> row_id row = questions_id_seq st \<and>
             rec_question_id row = uuid4 env \<and>
             uuid4 env \<notin> set (map rec_question_id (questions st)) \<and>
             questions_id_seq st < questions_id_seq st')) \<and>
         questions_id_seq st \<le> questions_id_seq st'"
proof -
  obtain l st1 where loop: "process_items env (uuid4 env) (data submission) [] 1 st = (l, st1)"
    by (cases "process_items env (uuid4 env) (data submission) [] 1 st") blast
  from process_items_frame [OF loop] have
    fr: "questions st1 = questions st" "questions_id_seq st1 = questions_id_seq st"
    by simp_all
  from assms loop fr show ?thesis
    by (auto simp: create_submission_def Let_def try_insert_def cursor_execute_def db_commit_def
          db_rollback_def split: sum.splits option.splits if_splits)
qed

lemma table_consistent_preserved:
  assumes "table_consistent st" and "create_submission env submission st = (r, st')"
  shows "table_consistent st'"
  using create_submission_frame [OF assms(2)] assms(1)
  by (fastforce simp: table_consistent_def)

lemma create_submission_uploads:
  assumes "process_items env (uuid4 env) (data submission) [] 1 st = (l, st1)"
    and "create_submission env submission st = (r, st')"
  shows "uploads st' = uploads st1"
  using assms
  by (auto simp: create_submission_def Let_def try_insert_def cursor_execute_def db_commit_def
        db_rollback_def split: sum.splits option.splits if_splits)

lemma create_submission_row:
  assumes "create_submission env submission st = (r, st')"
    and "questions st' = questions st @ [row]"
  shows "\<exists>out st1.
           process_items env (uuid4 env) (data submission) [] 1 st = (Inr out, st1) \<and>
           rec_data row = out \<and> row_id row = questions_id_seq st \<and>
           rec_question_id row = uuid4 env \<and> uploads st' = uploads st1"
proof -
  obtain l st1 where loop: "process_items env (uuid4 env) (data submission) [] 1 st = (l, st1)"
    by (cases "process_items env (uuid4 env) (data submission) [] 1 st") blast
  from process_items_frame [OF loop] have
    fr: "questions st1 = questions st" "questions_id_seq st1 = questions_id_seq st"
    by simp_all
  from assms loop fr show ?thesis
    by (auto simp: create_submission_def Let_def try_insert_def cursor_execute_def db_commit_def
          db_rollback_def split: sum.splits option.splits if_splits)
qed

section \<open>Properties of the validation\<close>

text \<open>A body that is rejected is rejected with at least one error.\<close>

lemma both_Inl:
  assumes "both a b = Inl e"
    and "\<And>ea. a = Inl ea \<Longrightarrow> ea \<noteq> []"
    and "\<And>eb. b = Inl eb \<Longrightarrow> eb \<noteq> []"
  shows "e \<noteq> []"
  using assms by (auto simp: both_def split: sum.splits)

lemma all_of_Inl:
  assumes "all_of rs = Inl e"
    and "\<And>r er. r \<in> set rs \<Longrightarrow> r = Inl er \<Longrightarrow> er \<noteq> []"
  shows "e \<noteq> []"
  using assms
proof (induction rs arbitrary: e)
  case Nil
  then show ?case by simp
next
  case (Cons r rs)
  from Cons.prems(1) have "both r (all_of rs) = Inl e"
    by (simp split: sum.splits prod.splits)
  then show ?case
  proof (rule both_Inl)
    fix ea assume "r = Inl ea"
    then show "ea \<noteq> []" using Cons.prems(2) by simp
  next
    fix eb assume "all_of rs = Inl eb"
    then show "eb \<noteq> []" using Cons.IH Cons.prems(2) by simp
  qed
qed

lemma required_Inl:
  assumes "required kvs key loc v = Inl e"
    and "\<And>l j ev. v l j = Inl ev \<Longrightarrow> ev \<noteq> []"
  shows "e \<noteq> []"
  using assms by (auto simp: required_def split: option.splits)

lemma validate_int_Inl: "validate_int env loc j = Inl e \<Longrightarrow> e \<noteq> []"
  by (auto simp: validate_int_def split: option.splits)

lemma validate_str_Inl: "validate_str env loc j = Inl e \<Longrightarrow> e \<noteq> []"
  by (auto simp: validate_str_def split: option.splits)

lemma validate_list_Inl:
  assumes "validate_list v loc j = Inl e"
    and "\<And>l j ev. v l j = Inl ev \<Longrightarrow> ev \<noteq> []"
  shows "e \<noteq> []"
proof (cases j)
  case (JArr xs)
  with assms(1) have
    "all_of (map (\<lambda>(i, x). v (loc @ [str_nat i]) x) (zip [0..<length xs] xs)) = Inl e"
    by (simp add: validate_list_def)
  then show ?thesis
  proof (rule all_of_Inl)
    fix r er
    assume "r \<in> set (map (\<lambda>(i, x). v (loc @ [str_nat i]) x) (zip [0..<length xs] xs))"
      and "r = Inl er"
    then obtain l x where "v l x = Inl er"
      by auto
    then show "er \<noteq> []"
      by (rule assms(2))
  qed
qed (use assms(1) in \<open>auto simp: validate_list_def\<close>)

lemma validate_DataItem_Inl: "validate_DataItem env loc j = Inl e \<Longrightarrow> e \<noteq> []"
  by (cases j)
     (auto simp: validate_DataItem_def split: sum.splits
           dest!: both_Inl required_Inl validate_int_Inl validate_str_Inl)

lemma validate_FilterModel_Inl: "validate_FilterModel env loc j = Inl e \<Longrightarrow> e \<noteq> []"
  by (cases j)
     (auto simp: validate_FilterModel_def split: sum.splits
           dest!: both_Inl required_Inl validate_list_Inl validate_str_Inl)

lemma validate_Submission_Inl: "validate_Submission env j = Inl e \<Longrightarrow> e \<noteq> []"
  by (cases j)
     (auto simp: validate_Submission_def split: sum.splits
           dest!: both_Inl required_Inl validate_list_Inl validate_DataItem_Inl
                  validate_FilterModel_Inl)

text \<open>Validation rejects exactly the bodies that do not match the shape.\<close>

lemma both_isl: "isl (both a b) \<longleftrightarrow> isl a \<or> isl b"
  by (cases a; cases b) (simp_all add: both_def)

lemma all_of_isl: "isl (all_of rs) \<longleftrightarrow> (\<exists>r \<in> set rs. isl r)"
proof (induction rs)
  case Nil
  show ?case by simp
next
  case (Cons r rs)
  have "isl (all_of (r # rs)) = isl (both r (all_of rs))"
    by (simp split: sum.splits prod.splits)
  with Cons show ?case by (simp add: both_isl)
qed

lemma required_isl:
  "isl (required kvs key loc v) \<longleftrightarrow> \<not> has_field kvs key (\<lambda>j. \<not> isl (v (loc @ [key]) j))"
  by (simp add: required_def has_field_def split: option.splits)

lemma validate_int_isl [simp]: "isl (validate_int env loc j) \<longleftrightarrow> \<not> int_typed env j"
  by (simp add: validate_int_def int_typed_def split: option.splits)

lemma validate_str_isl [simp]: "isl (validate_str env loc j) \<longleftrightarrow> \<not> str_typed env j"
  by (simp add: validate_str_def str_typed_def split: option.splits)

lemma validate_list_isl:
  assumes "\<And>l x. isl (v l x) \<longleftrightarrow> \<not> ok x"
  shows "isl (validate_list v loc j) \<longleftrightarrow> \<not> array_of ok j"
proof (cases j)
  case (JArr xs)
  have "(\<exists>p \<in> set (zip [0..<length xs] xs). isl (case p of (i, x) \<Rightarrow> v (loc @ [str_nat i]) x))
        \<longleftrightarrow> (\<exists>p \<in> set (zip [0..<length xs] xs). \<not> ok (snd p))"
    using assms by (simp add: case_prod_beta)
  also have "\<dots> \<longleftrightarrow> (\<exists>x \<in> snd ` set (zip [0..<length xs] xs). \<not> ok x)"
    by blast
  also have "snd ` set (zip [0..<length xs] xs) = set xs"
    by (metis length_upt diff_zero map_snd_zip set_map)
  finally show ?thesis
    using JArr by (simp add: validate_list_def array_of_def all_of_isl list_all_iff)
qed (simp_all add: validate_list_def array_of_def)

lemma validate_DataItem_isl [simp]:
  "isl (validate_DataItem env loc j) \<longleftrightarrow> \<not> matches_DataItem env j"
proof (cases j)
  case (JObj kvs)
  have "isl (validate_DataItem env loc j) =
        isl (both (required kvs ''id'' loc (validate_int env))
               (both (required kvs ''value'' loc (validate_str env))
                     (required kvs ''type'' loc (validate_str env))))"
    by (simp add: validate_DataItem_def JObj split: sum.splits prod.splits)
  then show ?thesis
    by (simp add: JObj matches_DataItem_def both_isl required_isl)
qed (simp_all add: validate_DataItem_def matches_DataItem_def)

lemma validate_FilterModel_isl [simp]:
  "isl (validate_FilterModel env loc j) \<longleftrightarrow> \<not> matches_FilterModel env j"
proof (cases j)
  case (JObj kvs)
  have "isl (validate_FilterModel env loc j) =
        isl (both (required kvs ''materia'' loc (validate_list (validate_str env)))
               (both (required kvs ''assunto'' loc (validate_list (validate_str env)))
               (both (required kvs ''subAssunto'' loc (validate_list (validate_str env)))
               (both (required kvs ''faculdade'' loc (validate_str env))
                     (required kvs ''ano'' loc (validate_str env))))))"
    by (simp add: validate_FilterModel_def JObj split: sum.splits prod.splits)
  then show ?thesis
    by (simp add: JObj matches_FilterModel_def both_isl required_isl
          validate_list_isl [where ok = "str_typed env"])
qed (simp_all add: validate_FilterModel_def matches_FilterModel_def)

lemma validate_Submission_isl:
  "isl (validate_Submission env j) \<longleftrightarrow> \<not> matches_Submission env j"
proof (cases j)
  case (JObj kvs)
  have "isl (validate_Submission env j) =
        isl (both (required kvs ''data'' [''body''] (validate_list (validate_DataItem env)))
                  (required kvs ''filter'' [''body''] (validate_FilterModel env)))"
    by (simp add: validate_Submission_def JObj split: sum.splits prod.splits)
  then show ?thesis
    by (simp add: JObj matches_Submission_def both_isl required_isl
          validate_list_isl [where ok = "matches_DataItem env"])
qed (simp_all add: validate_Submission_def matches_Submission_def)

text \<open>The bodies of the two well-formed requests above are accepted.\<close>

lemma example_body_valid: "validate_Submission example_env example_body = Inr example_submission"
  by (simp add: validate_Submission_def validate_list_def validate_DataItem_def
        validate_FilterModel_def required_def both_def validate_int_def validate_str_def
        example_env_def example_body_def example_submission_def example_filter_def
        lax_int_def only_str_def str_nat.simps)

lemma empty_data_body_valid: "validate_Submission example_env empty_data_body = Inr empty_submission"
  by (simp add: validate_Submission_def validate_list_def validate_FilterModel_def required_def
        both_def validate_str_def example_env_def empty_data_body_def empty_submission_def
        example_filter_def only_str_def str_nat.simps)

section \<open>The claims\<close>

text \<open>
  C1. Whenever the handler has added a row to the table, the row's \<^verbatim>\<open>materia\<close>,
  \<^verbatim>\<open>assunto\<close> and \<^verbatim>\<open>sub_assunto\<close> are the filter's three lists of strings and its
  \<^verbatim>\<open>faculdade\<close> and \<^verbatim>\<open>ano\<close> the filter's two strings, as they are. (The dictionary
  \<^verbatim>\<open>record\<close> holds each of them inside a tuple of one element, because of the commas
  that end lines 116 to 120; the insert stores the element.)
\<close>

theorem filter_fields_persisted_verbatim:
  assumes "create_submission env submission st = (r, st')"
    and "questions st' = questions st @ [row]"
  shows "rec_materia row = py_str_list (materia (filter_model submission)) \<and>
         rec_assunto row = py_str_list (assunto (filter_model submission)) \<and>
         rec_sub_assunto row = py_str_list (subAssunto (filter_model submission)) \<and>
         rec_faculdade row = PyStr (faculdade (filter_model submission)) \<and>
         rec_ano row = PyStr (ano (filter_model submission))"
proof -
  obtain l st1 where loop: "process_items env (uuid4 env) (data submission) [] 1 st = (l, st1)"
    by (cases "process_items env (uuid4 env) (data submission) [] 1 st") blast
  from process_items_frame [OF loop] have
    fr: "questions st1 = questions st" "questions_id_seq st1 = questions_id_seq st"
    by simp_all
  from assms loop fr show ?thesis
    by (auto simp: create_submission_def Let_def try_insert_def cursor_execute_def db_commit_def
          db_rollback_def split: sum.splits option.splits if_splits)
qed

theorem filter_fields_persisted_verbatim_witness:
  "fst (create_submission example_env example_submission example_state) =
     Inr \<lparr>message = ''Submission created successfully'', submission_id = 1\<rparr> \<and>
   map (\<lambda>row. (rec_materia row, rec_assunto row, rec_sub_assunto row,
               rec_faculdade row, rec_ano row))
     (questions (snd (create_submission example_env example_submission example_state))) =
   [(PyList [PyStr ''math''], PyList [PyStr ''algebra''], PyList [], PyStr ''X'', PyStr ''2024'')]"
proof -
  let ?r = "create_submission example_env example_submission example_state"
  have run: "?r = (fst ?r, snd ?r)"
    by simp
  have ok: "fst ?r = Inr \<lparr>message = ''Submission created successfully'', submission_id = 1\<rparr>"
    by (simp add: create_submission_def example_env_def example_submission_def
          example_state_def lower_def lower_char_def str_int_def str_nat.simps digit_char_def
          try_insert_def cursor_execute_def db_commit_def Let_def)
  have "\<exists>row. questions (snd ?r) = questions example_state @ [row]"
    by (simp add: create_submission_def example_env_def example_submission_def
          example_state_def lower_def lower_char_def str_int_def str_nat.simps digit_char_def
          try_insert_def cursor_execute_def db_commit_def Let_def)
  then obtain row where row: "questions (snd ?r) = questions example_state @ [row]"
    by blast
  from filter_fields_persisted_verbatim [OF run row] row ok show ?thesis
    by (simp add: example_submission_def example_filter_def example_state_def py_str_list_def)
qed

text \<open>
  C2, as the code has it. Let a submission contain an image item \<open>bad\<close> on whose value
  \<^verbatim>\<open>b64decode\<close> raises, after the items \<open>pre\<close> and before the items \<open>post\<close>. Then the
  handler fails, the table and its sequence are untouched, and the upload calls made are
  calls for an initial segment of the image items of \<open>pre\<close>: none is made for \<open>bad\<close> or
  for an item of \<open>post\<close>. When the items of \<open>pre\<close> were processed without failure, the
  failure is the \<^verbatim>\<open>HTTPException\<close> with status 400 whose detail carries the decoder's
  reason, and the handler stops in the state the loop had reached.
\<close>

theorem undecodable_image_aborts:
  assumes "data submission = pre @ bad # post"
    and "is_image bad"
    and "b64decode env (item_value bad) = Inl reason"
  shows "\<exists>e st' new.
           create_submission env submission st = (Inl e, st') \<and>
           questions st' = questions st \<and>
           questions_id_seq st' = questions_id_seq st \<and>
           uploads st' = uploads st @ new \<and>
           length new \<le> length (filter is_image pre) \<and>
           map (\<lambda>c. Inr (snd (snd c))) new =
             take (length new) (map (\<lambda>i. b64decode env (item_value i)) (filter is_image pre)) \<and>
           (\<forall>out st1.
              process_items env (uuid4 env) pre [] 1 st = (Inr out, st1) \<longrightarrow>
              e = HTTPException 400 (''Error decoding image data: '' @ reason) \<and>
              http_response (Inl e) = (400, Detail (''Error decoding image data: '' @ reason)) \<and>
              st' = st1)"
proof -
  obtain r st1 where pre: "process_items env (uuid4 env) pre [] 1 st = (r, st1)"
    by (cases "process_items env (uuid4 env) pre [] 1 st") blast
  from process_items_frame [OF pre] have
    frame: "questions st1 = questions st" "questions_id_seq st1 = questions_id_seq st"
    by simp_all
  from process_items_uploads [OF pre] obtain new where
    new: "uploads st1 = uploads st @ new" "length new \<le> length (filter is_image pre)"
      "map (\<lambda>c. Inr (snd (snd c))) new =
         take (length new) (map (\<lambda>i. b64decode env (item_value i)) (filter is_image pre))"
    by blast
  show ?thesis
  proof (cases r)
    case (Inl e)
    with pre assms(1) have "process_items env (uuid4 env) (data submission) [] 1 st = (Inl e, st1)"
      by (simp add: process_items_append)
    then have "create_submission env submission st = (Inl e, st1)"
      by (rule create_submission_loop_error)
    with frame new pre Inl show ?thesis
      by (intro exI [of _ e] exI [of _ st1] exI [of _ new]) simp
  next
    case (Inr out)
    let ?e = "HTTPException 400 (''Error decoding image data: '' @ reason)"
    from pre Inr assms have
      "process_items env (uuid4 env) (data submission) [] 1 st = (Inl ?e, st1)"
      by (simp add: process_items_append process_items_Cons_image_decode_error
               del: process_items.simps)
    then have "create_submission env submission st = (Inl ?e, st1)"
      by (rule create_submission_loop_error)
    with frame new pre Inr show ?thesis
      by (intro exI [of _ ?e] exI [of _ st1] exI [of _ new]) simp
  qed
qed

theorem undecodable_image_aborts_witness:
  "create_submission example_env broken_image_submission example_state =
     (Inl (HTTPException 400
        ''Error decoding image data: Invalid base64-encoded string: number of data characters (1) cannot be 1 more than a multiple of 4''),
      example_state\<lparr>uploads :=
        [(''vupi-questions-images'', ''6fa459ea-ee8a-3ca4-894e-db77e160355e_1.png'', [104, 105])]\<rparr>)"
proof -
  let ?pre = "[\<lparr>item_id = 1, item_value = ''first'', item_type = ''text''\<rparr>,
               \<lparr>item_id = 2, item_value = ''aGk='', item_type = ''image''\<rparr>]"
  let ?bad = "\<lparr>item_id = 3, item_value = ''a'', item_type = ''image''\<rparr>"
  let ?post = "[\<lparr>item_id = 4, item_value = ''eW8='', item_type = ''image''\<rparr>]"
  let ?st1 = "example_state\<lparr>uploads :=
        [(''vupi-questions-images'', ''6fa459ea-ee8a-3ca4-894e-db77e160355e_1.png'', [104, 105])]\<rparr>"
  have split: "data broken_image_submission = ?pre @ ?bad # ?post"
    by (simp add: broken_image_submission_def)
  have img: "is_image ?bad"
    by (simp add: is_image_def lower_def lower_char_def)
  have bad: "b64decode example_env (item_value ?bad) =
      Inl ''Invalid base64-encoded string: number of data characters (1) cannot be 1 more than a multiple of 4''"
    by (simp add: example_env_def)
  have pre: "process_items example_env (uuid4 example_env) ?pre [] 1 example_state =
      (Inr [\<lparr>p_id = 1, p_type = ''text'', p_value = ''first''\<rparr>,
            \<lparr>p_id = 2, p_type = ''image'', p_value =
               ''https://store/vupi-questions-images/6fa459ea-ee8a-3ca4-894e-db77e160355e_1.png''\<rparr>],
       ?st1)"
    by (simp add: example_env_def example_state_def lower_def lower_char_def str_int_def
          str_nat.simps digit_char_def Let_def)
  from undecodable_image_aborts [OF split img bad, of example_state] pre show ?thesis
    by auto
qed

text \<open>
  The claim as stated fails twice. The decoder is lenient: \<^verbatim>\<open>"!!!!"\<close> is not well-formed
  base64, yet it decodes to no bytes, so the image is uploaded as an empty object, a row is
  inserted and the request succeeds. And a failure of an earlier item comes first: with a
  store that refuses the upload of the first image, the request that holds an undecodable
  image further on fails with 500.
\<close>

theorem invalid_base64_answered_400_counterexample:
  "\<not> well_formed_base64 ''!!!!'' \<and>
   fst (create_submission example_env lenient_image_submission example_state) =
     Inr \<lparr>message = ''Submission created successfully'', submission_id = 1\<rparr> \<and>
   uploads (snd (create_submission example_env lenient_image_submission example_state)) =
     [(''vupi-questions-images'', ''6fa459ea-ee8a-3ca4-894e-db77e160355e_1.png'', [])] \<and>
   map row_id (questions (snd (create_submission example_env lenient_image_submission
     example_state))) = [1] \<and>
   fst (create_submission upload_failure_env broken_image_submission example_state) =
     Inl (HTTPException 500 ''Error uploading image: Bucket not found'')"
  by (simp add: well_formed_base64_def table_a2b_base64_def create_submission_def
        upload_failure_env_def example_env_def lenient_image_submission_def
        broken_image_submission_def example_state_def lower_def lower_char_def str_int_def
        str_nat.simps digit_char_def try_insert_def cursor_execute_def db_commit_def Let_def)

text \<open>
  C3, as the code has it. A body that does not match the shape of \<^verbatim>\<open>Submission\<close> (a
  required field is missing, or a value is one its field's conversion refuses) never
  reaches the function: it is answered with status 422 and a non-empty list of the fields
  in error as detail, and neither the upload log nor the table changes. A body that matches
  is handed to the function, and that includes a body whose value has another JSON type than
  the one declared but which the conversion takes, such as the string \<^verbatim>\<open>"1"\<close> for
  \<^verbatim>\<open>id\<close>.
\<close>

theorem mismatching_body_rejected_before_handler:
  "(\<not> matches_Submission env body \<longrightarrow>
      (\<exists>errors. errors \<noteq> [] \<and>
         post_questions env body st = ((422, DetailErrors errors), st))) \<and>
   (matches_Submission env body \<longrightarrow>
      (\<exists>submission. validate_Submission env body = Inr submission \<and>
         post_questions env body st =
           (http_response (fst (create_submission env submission st)),
            snd (create_submission env submission st))))"
proof (cases "validate_Submission env body")
  case (Inl errors)
  then have "\<not> matches_Submission env body"
    using validate_Submission_isl [of env body] by simp
  moreover have "errors \<noteq> []"
    using Inl by (rule validate_Submission_Inl)
  moreover have "post_questions env body st = ((422, DetailErrors errors), st)"
    using Inl by (simp add: post_questions_def)
  ultimately show ?thesis by blast
next
  case (Inr submission)
  then have "matches_Submission env body"
    using validate_Submission_isl [of env body] by simp
  moreover have "post_questions env body st =
      (http_response (fst (create_submission env submission st)),
       snd (create_submission env submission st))"
    using Inr by (simp add: post_questions_def split: prod.splits)
  ultimately show ?thesis using Inr by blast
qed

theorem mismatching_body_rejected_before_handler_witness:
  "\<not> matches_Submission example_env body_without_filter \<and>
   \<not> matches_Submission example_env body_with_word_id \<and>
   matches_Submission example_env body_with_string_id \<and>
   (\<exists>errors. errors \<noteq> [] \<and>
      post_questions example_env body_without_filter populated_state =
        ((422, DetailErrors errors), populated_state)) \<and>
   (\<exists>errors. errors \<noteq> [] \<and>
      post_questions example_env body_with_word_id populated_state =
        ((422, DetailErrors errors), populated_state)) \<and>
   fst (post_questions example_env body_with_string_id populated_state) =
     (200, SuccessBody ''Submission created successfully'' 2)"
proof -
  have a: "\<not> matches_Submission example_env body_without_filter"
    by (simp add: matches_Submission_def has_field_def body_without_filter_def array_of_def)
  have b: "\<not> matches_Submission example_env body_with_word_id"
    by (simp add: matches_Submission_def matches_DataItem_def has_field_def array_of_def
          body_with_word_id_def int_typed_def example_env_def lax_int_def int_of_string_def)
  have v: "validate_Submission example_env body_with_string_id =
      Inr \<lparr>data = [\<lparr>item_id = 1, item_value = ''aGVsbG8='', item_type = ''text''\<rparr>],
           filter_model = example_filter\<rparr>"
    by (simp add: validate_Submission_def validate_list_def validate_DataItem_def
          validate_FilterModel_def required_def both_def validate_int_def validate_str_def
          example_env_def body_with_string_id_def example_filter_def lax_int_def only_str_def
          int_of_string_def str_nat.simps)
  then have c: "matches_Submission example_env body_with_string_id"
    using validate_Submission_isl [of example_env body_with_string_id] by simp
  have run: "fst (create_submission example_env
      \<lparr>data = [\<lparr>item_id = 1, item_value = ''aGVsbG8='', item_type = ''text''\<rparr>],
        filter_model = example_filter\<rparr> populated_state) =
      Inr \<lparr>message = ''Submission created successfully'', submission_id = 2\<rparr>"
    by (simp add: create_submission_def example_env_def populated_state_def lower_def
          lower_char_def try_insert_def cursor_execute_def db_commit_def Let_def)
  from mismatching_body_rejected_before_handler [of example_env body_without_filter populated_state]
    a
  have ra: "\<exists>errors. errors \<noteq> [] \<and>
      post_questions example_env body_without_filter populated_state =
        ((422, DetailErrors errors), populated_state)"
    by blast
  from mismatching_body_rejected_before_handler [of example_env body_with_word_id populated_state]
    b
  have rb: "\<exists>errors. errors \<noteq> [] \<and>
      post_questions example_env body_with_word_id populated_state =
        ((422, DetailErrors errors), populated_state)"
    by blast
  from mismatching_body_rejected_before_handler [of example_env body_with_string_id populated_state]
    c v run
  have rc: "fst (post_questions example_env body_with_string_id populated_state) =
      (200, SuccessBody ''Submission created successfully'' 2)"
    by auto
  from a b c ra rb rc show ?thesis by blast
qed

text \<open>
  The claim as stated fails on a body that lacks the key \<^verbatim>\<open>filter\<close>: the answer is 422
  with a list, not 400 with a string. It fails too on a body whose \<^verbatim>\<open>id\<close> is the string
  \<^verbatim>\<open>"1"\<close> where an integer is declared: the body is accepted, the function runs and a
  row is written.
\<close>

theorem invalid_body_answered_400_counterexample:
  "post_questions example_env body_without_filter example_state =
     ((422, DetailErrors [[''body'', ''filter'']]), example_state) \<and>
   fst (fst (post_questions example_env body_without_filter example_state)) \<noteq> 400 \<and>
   fst (post_questions example_env body_with_string_id example_state) =
     (200, SuccessBody ''Submission created successfully'' 1) \<and>
   map row_id (questions (snd (post_questions example_env body_with_string_id example_state)))
     = [1]"
  by (simp add: post_questions_def validate_Submission_def validate_list_def
        validate_DataItem_def validate_FilterModel_def required_def both_def validate_int_def
        validate_str_def body_without_filter_def body_with_string_id_def example_env_def
        example_state_def lax_int_def only_str_def int_of_string_def str_nat.simps
        create_submission_def lower_def lower_char_def try_insert_def cursor_execute_def
        db_commit_def Let_def)

text \<open>
  C4. When the loop has processed a submission with \<open>k\<close> image items to its end, exactly
  \<open>k\<close> upload calls were made by the handler, all to the configured bucket, whatever the
  insert does afterwards. Their object names are \<^verbatim>\<open>{question_id}_1.png\<close> to
  \<^verbatim>\<open>{question_id}_k.png\<close> in this order, and their contents are the decoded values of
  the image items in input order. Items of any other type take no number.
\<close>

theorem upload_calls_named_in_order:
  assumes "process_items env (uuid4 env) (data submission) [] 1 st = (Inr processed_data, st1)"
    and "create_submission env submission st = (r, st')"
  shows "\<exists>new. uploads st' = uploads st @ new \<and>
           length new = length (filter is_image (data submission)) \<and>
           map fst new = replicate (length new) (IMAGE_BUCKET env) \<and>
           map (\<lambda>c. fst (snd c)) new =
             map (object_name (uuid4 env)) [1..int (length (filter is_image (data submission)))] \<and>
           map (\<lambda>c. Inr (snd (snd c))) new =
             map (\<lambda>i. b64decode env (item_value i)) (filter is_image (data submission))"
proof -
  note loop = assms(1)
  from create_submission_uploads [OF assms] have same: "uploads st' = uploads st1" .
  from process_items_uploads [OF loop] obtain new where
    new: "uploads st1 = uploads st @ new"
      "map fst new = replicate (length new) (IMAGE_BUCKET env)"
      "map (\<lambda>c. fst (snd c)) new = map (object_name (uuid4 env)) [1..1 + int (length new) - 1]"
      "map (\<lambda>c. Inr (snd (snd c))) new =
         take (length new) (map (\<lambda>i. b64decode env (item_value i))
           (filter is_image (data submission)))"
    by blast
  from process_items_success_count [OF loop] new(1) have
    len: "length new = length (filter is_image (data submission))"
    by simp
  from new len same show ?thesis
    by (intro exI [of _ new]) simp
qed

theorem upload_calls_named_in_order_witness:
  "fst (create_submission example_env interleaved_submission example_state) =
     Inr \<lparr>message = ''Submission created successfully'', submission_id = 1\<rparr> \<and>
   uploads (snd (create_submission example_env interleaved_submission example_state)) =
     [(''vupi-questions-images'', ''6fa459ea-ee8a-3ca4-894e-db77e160355e_1.png'', [104, 105]),
      (''vupi-questions-images'', ''6fa459ea-ee8a-3ca4-894e-db77e160355e_2.png'', [121, 111])]"
proof -
  let ?r = "create_submission example_env interleaved_submission example_state"
  let ?l = "process_items example_env (uuid4 example_env) (data interleaved_submission) [] 1
              example_state"
  let ?out = "[\<lparr>p_id = 7, p_type = ''image'', p_value =
                  ''https://store/vupi-questions-images/6fa459ea-ee8a-3ca4-894e-db77e160355e_1.png''\<rparr>,
               \<lparr>p_id = 8, p_type = ''text'', p_value = ''between''\<rparr>,
               \<lparr>p_id = 9, p_type = ''IMAGE'', p_value =
                  ''https://store/vupi-questions-images/6fa459ea-ee8a-3ca4-894e-db77e160355e_2.png''\<rparr>]"
  have ok: "fst ?r = Inr \<lparr>message = ''Submission created successfully'', submission_id = 1\<rparr>"
    by (simp add: create_submission_def example_env_def interleaved_submission_def
          example_state_def lower_def lower_char_def str_int_def str_nat.simps digit_char_def
          try_insert_def cursor_execute_def db_commit_def Let_def)
  have "fst ?l = Inr ?out"
    by (simp add: example_env_def interleaved_submission_def example_state_def lower_def
          lower_char_def str_int_def str_nat.simps digit_char_def Let_def)
  then have loop: "?l = (Inr ?out, snd ?l)"
    by (metis prod.collapse)
  have run: "?r = (fst ?r, snd ?r)"
    by simp
  from upload_calls_named_in_order [OF loop run] obtain new where
    "uploads (snd ?r) = uploads example_state @ new"
    "length new = length (filter is_image (data interleaved_submission))"
    "map fst new = replicate (length new) (IMAGE_BUCKET example_env)"
    "map (\<lambda>c. fst (snd c)) new = map (object_name (uuid4 example_env))
        [1..int (length (filter is_image (data interleaved_submission)))]"
    "map (\<lambda>c. Inr (snd (snd c))) new =
       map (\<lambda>i. b64decode example_env (item_value i))
         (filter is_image (data interleaved_submission))"
    by blast
  then have "uploads (snd ?r) =
     [(''vupi-questions-images'', ''6fa459ea-ee8a-3ca4-894e-db77e160355e_1.png'', [104, 105]),
      (''vupi-questions-images'', ''6fa459ea-ee8a-3ca4-894e-db77e160355e_2.png'', [121, 111])]"
    by (auto simp: example_env_def interleaved_submission_def example_state_def is_image_def
          lower_def lower_char_def object_name_def str_int_def str_nat.simps digit_char_def
          upto.simps map_eq_Cons_conv)
  with ok show ?thesis by simp
qed

text \<open>
  C5. A failure in the insert step is claimed to leave no row behind. The handler commits
  (line 180) before it reads the key back (line 181) and prints the record (line 182), all
  inside one \<^verbatim>\<open>try\<close>: when one of the last two raises, \<^verbatim>\<open>db.rollback()\<close> runs after the
  commit and undoes nothing. The caller is told 500 and the row is in the table. The theorem
  evaluates the handler on an empty table with a cursor that fails to return the row, and
  with a \<^verbatim>\<open>print\<close> that raises.
\<close>

theorem failure_after_commit_keeps_row:
  "questions example_state = [] \<and>
   fst (create_submission fetch_failure_env empty_submission example_state) =
     Inl (HTTPException 500 ''Error inserting record: no results to fetch'') \<and>
   map row_id (questions (snd (create_submission fetch_failure_env empty_submission example_state)))
     = [1] \<and>
   fst (create_submission print_failure_env empty_submission example_state) =
     Inl (HTTPException 500 ''Error inserting record: charmap codec cannot encode character'') \<and>
   map row_id (questions (snd (create_submission print_failure_env empty_submission example_state)))
     = [1]"
  by (simp add: create_submission_def fetch_failure_env_def print_failure_env_def example_env_def
        empty_submission_def example_state_def try_insert_def cursor_execute_def db_commit_def
        db_rollback_def Let_def)

text \<open>
  C6. Whenever the handler has added a row to the table and item \<open>i\<close> of the submission
  is an image, entry \<open>i\<close> of the row's \<^verbatim>\<open>data\<close> has the item's id and type, and its
  value is the URL that the store's \<^verbatim>\<open>get_public_url\<close> returned for the object name under
  which the decoded bytes of this very item were uploaded. The value is the store's answer;
  the submitted base64 text is not copied.
\<close>

theorem image_value_is_public_url:
  assumes "create_submission env submission st = (r, st')"
    and "questions st' = questions st @ [row]"
    and "i < length (data submission)"
    and "is_image (data submission ! i)"
  shows "\<exists>content url.
           p_id (rec_data row ! i) = item_id (data submission ! i) \<and>
           p_type (rec_data row ! i) = item_type (data submission ! i) \<and>
           p_value (rec_data row ! i) = url \<and>
           get_public_url env (IMAGE_BUCKET env)
             (object_name (uuid4 env)
                (1 + int (length (filter is_image (take i (data submission)))))) = Inr url \<and>
           b64decode env (item_value (data submission ! i)) = Inr content \<and>
           (IMAGE_BUCKET env,
            object_name (uuid4 env) (1 + int (length (filter is_image (take i (data submission))))),
            content) \<in> set (uploads st')"
proof -
  let ?items = "data submission"
  let ?j = "length (filter is_image (take i ?items))"
  let ?name = "object_name (uuid4 env) (1 + int ?j)"
  from create_submission_row [OF assms(1,2)] obtain out st1 where
    loop: "process_items env (uuid4 env) ?items [] 1 st = (Inr out, st1)" and
    row: "rec_data row = out" and
    same: "uploads st' = uploads st1"
    by blast
  from process_items_nth [OF loop assms(3)] assms(4) have
    entry: "p_id (out ! i) = item_id (?items ! i)" "p_type (out ! i) = item_type (?items ! i)"
      "get_public_url env (IMAGE_BUCKET env) ?name = Inr (p_value (out ! i))"
    by simp_all
  from process_items_uploads [OF loop] obtain new where
    new: "uploads st1 = uploads st @ new"
      "map fst new = replicate (length new) (IMAGE_BUCKET env)"
      "map (\<lambda>c. fst (snd c)) new = map (object_name (uuid4 env)) [1..1 + int (length new) - 1]"
      "map (\<lambda>c. Inr (snd (snd c))) new =
         take (length new) (map (\<lambda>i. b64decode env (item_value i)) (filter is_image ?items))"
    by blast
  from process_items_success_count [OF loop] new(1) have
    len: "length new = length (filter is_image ?items)"
    by simp
  from filter_nth_of_take [OF assms(3), of is_image] assms(4) have
    j: "?j < length (filter is_image ?items)" "filter is_image ?items ! ?j = ?items ! i"
    by simp_all
  from j(1) len have jn: "?j < length new" by simp
  have "map fst new ! ?j = replicate (length new) (IMAGE_BUCKET env) ! ?j"
    using new(2) by simp
  with jn have c1: "fst (new ! ?j) = IMAGE_BUCKET env"
    by simp
  have "map (\<lambda>c. fst (snd c)) new ! ?j
          = map (object_name (uuid4 env)) [1..1 + int (length new) - 1] ! ?j"
    using new(3) by simp
  with jn have c2: "fst (snd (new ! ?j)) = ?name"
    by simp
  have "map (\<lambda>c. Inr (snd (snd c))) new ! ?j =
          take (length new) (map (\<lambda>i. b64decode env (item_value i)) (filter is_image ?items)) ! ?j"
    using new(4) by simp
  with jn j len have c3: "b64decode env (item_value (?items ! i)) = Inr (snd (snd (new ! ?j)))"
    by simp
  from c1 c2 have "new ! ?j = (IMAGE_BUCKET env, ?name, snd (snd (new ! ?j)))"
    by (metis prod.collapse)
  with jn have "(IMAGE_BUCKET env, ?name, snd (snd (new ! ?j))) \<in> set new"
    by (metis nth_mem)
  with new(1) same have "(IMAGE_BUCKET env, ?name, snd (snd (new ! ?j))) \<in> set (uploads st')"
    by simp
  with row entry c3 show ?thesis
    by blast
qed

theorem image_value_is_public_url_witness:
  "questions (snd (create_submission example_env example_submission example_state)) =
     questions example_state @
       [make_row 1 \<lparr>rec_question_id = ''6fa459ea-ee8a-3ca4-894e-db77e160355e'',
          rec_materia = PyList [PyStr ''math''],
          rec_assunto = PyList [PyStr ''algebra''],
          rec_sub_assunto = PyList [],
          rec_faculdade = PyStr ''X'', rec_ano = PyStr ''2024'',
          rec_data =
            [\<lparr>p_id = 1, p_type = ''text'', p_value = ''aGVsbG8=''\<rparr>,
             \<lparr>p_id = 2, p_type = ''Image'', p_value =
                ''https://store/vupi-questions-images/6fa459ea-ee8a-3ca4-894e-db77e160355e_1.png''\<rparr>]\<rparr>] \<and>
   get_public_url example_env ''vupi-questions-images''
     ''6fa459ea-ee8a-3ca4-894e-db77e160355e_1.png'' =
     Inr ''https://store/vupi-questions-images/6fa459ea-ee8a-3ca4-894e-db77e160355e_1.png'' \<and>
   (''vupi-questions-images'', ''6fa459ea-ee8a-3ca4-894e-db77e160355e_1.png'', [104, 105])
     \<in> set (uploads (snd (create_submission example_env example_submission example_state)))"
proof -
  let ?r = "create_submission example_env example_submission example_state"
  let ?row = "make_row 1 \<lparr>rec_question_id = ''6fa459ea-ee8a-3ca4-894e-db77e160355e'',
          rec_materia = PyList [PyStr ''math''],
          rec_assunto = PyList [PyStr ''algebra''],
          rec_sub_assunto = PyList [],
          rec_faculdade = PyStr ''X'', rec_ano = PyStr ''2024'',
          rec_data =
            [\<lparr>p_id = 1, p_type = ''text'', p_value = ''aGVsbG8=''\<rparr>,
             \<lparr>p_id = 2, p_type = ''Image'', p_value =
                ''https://store/vupi-questions-images/6fa459ea-ee8a-3ca4-894e-db77e160355e_1.png''\<rparr>]\<rparr>"
  have run: "?r = (fst ?r, snd ?r)"
    by simp
  have row: "questions (snd ?r) = questions example_state @ [?row]"
    by (simp add: create_submission_def example_env_def example_submission_def
          example_filter_def example_state_def lower_def lower_char_def str_int_def
          str_nat.simps digit_char_def try_insert_def cursor_execute_def db_commit_def Let_def
          py_str_list_def)
  have i: "1 < length (data example_submission)"
    by (simp add: example_submission_def)
  have img: "is_image (data example_submission ! 1)"
    by (simp add: example_submission_def is_image_def lower_def lower_char_def)
  from image_value_is_public_url [OF run row i img] row show ?thesis
    by (auto simp: example_env_def example_submission_def example_state_def is_image_def
          lower_def lower_char_def object_name_def str_int_def str_nat.simps digit_char_def)
qed

text \<open>
  C7. When a submission is processed successfully, the \<^verbatim>\<open>data\<close> of the inserted row has
  as many entries as the submission has items; entry \<open>i\<close> has the id and the type of item
  \<open>i\<close>, and, when item \<open>i\<close> is not an image (its type, lower-cased, is not
  \<^verbatim>\<open>"image"\<close>), its value too. With no image item at all the persisted data is the
  list of items as submitted.
\<close>

theorem persisted_data_preserves_items:
  assumes "create_submission env submission st = (Inr resp, st')"
  shows "\<exists>row. questions st' = questions st @ [row] \<and>
           length (rec_data row) = length (data submission) \<and>
           map p_id (rec_data row) = map item_id (data submission) \<and>
           map p_type (rec_data row) = map item_type (data submission) \<and>
           (\<forall>i < length (data submission).
              \<not> is_image (data submission ! i) \<longrightarrow>
              p_value (rec_data row ! i) = item_value (data submission ! i)) \<and>
           (filter is_image (data submission) = [] \<longrightarrow>
              rec_data row = map passthrough (data submission))"
proof -
  from create_submission_Inr [OF assms] obtain out st1 row where
    loop: "process_items env (uuid4 env) (data submission) [] 1 st = (Inr out, st1)" and
    row: "rec_data row = out" "questions st' = questions st @ [row]"
    by blast
  from process_items_prefix [OF loop] have len: "length out = length (data submission)"
    by simp
  have nth: "p_id (out ! i) = item_id (data submission ! i) \<and>
             p_type (out ! i) = item_type (data submission ! i) \<and>
             (\<not> is_image (data submission ! i) \<longrightarrow>
                p_value (out ! i) = item_value (data submission ! i))"
    if "i < length (data submission)" for i
    using process_items_nth [OF loop that] by (simp split: if_splits)
  have ids: "map p_id out = map item_id (data submission)"
    using len nth by (simp add: list_eq_iff_nth_eq)
  have types: "map p_type out = map item_type (data submission)"
    using len nth by (simp add: list_eq_iff_nth_eq)
  have verbatim: "out = map passthrough (data submission)"
    if "filter is_image (data submission) = []"
    using process_items_no_image [OF that, of env "uuid4 env" "[]" 1 st] loop by simp
  from row len ids types nth verbatim show ?thesis
    by (intro exI [of _ row]) simp
qed

theorem persisted_data_preserves_items_witness:
  "fst (create_submission example_env example_submission example_state) =
     Inr \<lparr>message = ''Submission created successfully'', submission_id = 1\<rparr> \<and>
   (\<exists>row. questions (snd (create_submission example_env example_submission example_state)) = [row] \<and>
      length (rec_data row) = 2 \<and>
      map p_id (rec_data row) = [1, 2] \<and>
      map p_type (rec_data row) = [''text'', ''Image''] \<and>
      p_value (rec_data row ! 0) = ''aGVsbG8='') \<and>
   fst (create_submission example_env text_only_submission example_state) =
     Inr \<lparr>message = ''Submission created successfully'', submission_id = 1\<rparr> \<and>
   (\<exists>row. questions (snd (create_submission example_env text_only_submission example_state)) = [row] \<and>
      rec_data row = [\<lparr>p_id = 1, p_type = ''text'', p_value = ''aGVsbG8=''\<rparr>,
                      \<lparr>p_id = 2, p_type = ''formula'', p_value = ''2 + 2''\<rparr>])"
proof -
  let ?ok = "Inr \<lparr>message = ''Submission created successfully'', submission_id = 1\<rparr>"
  let ?r = "create_submission example_env example_submission example_state"
  let ?t = "create_submission example_env text_only_submission example_state"
  have r: "fst ?r = ?ok"
    by (simp add: create_submission_def example_env_def example_submission_def
          example_state_def lower_def lower_char_def str_int_def str_nat.simps digit_char_def try_insert_def
          cursor_execute_def db_commit_def Let_def)
  then have "?r = (?ok, snd ?r)"
    by (metis prod.collapse)
  from persisted_data_preserves_items [OF this] have
    first: "\<exists>row. questions (snd ?r) = [row] \<and>
      length (rec_data row) = 2 \<and>
      map p_id (rec_data row) = [1, 2] \<and>
      map p_type (rec_data row) = [''text'', ''Image''] \<and>
      p_value (rec_data row ! 0) = ''aGVsbG8=''"
    by (auto simp: example_submission_def example_state_def is_image_def lower_def lower_char_def)
  have t: "fst ?t = ?ok"
    by (simp add: create_submission_def example_env_def text_only_submission_def
          example_state_def lower_def lower_char_def try_insert_def
          cursor_execute_def db_commit_def Let_def)
  then have "?t = (?ok, snd ?t)"
    by (metis prod.collapse)
  from persisted_data_preserves_items [OF this] have
    second: "\<exists>row. questions (snd ?t) = [row] \<and>
      rec_data row = [\<lparr>p_id = 1, p_type = ''text'', p_value = ''aGVsbG8=''\<rparr>,
                      \<lparr>p_id = 2, p_type = ''formula'', p_value = ''2 + 2''\<rparr>]"
    by (auto simp: text_only_submission_def example_state_def is_image_def lower_def
          lower_char_def passthrough_def)
  from r first t second show ?thesis by blast
qed

text \<open>
  C8. A request that succeeds is answered with status 200 and the body
  \<^verbatim>\<open>{"message": "Submission created successfully", "submission_id": id}\<close>. Exactly one row
  was added to the table; its key is the returned id and its \<^verbatim>\<open>question_id\<close> is the UUID
  drawn for this request; no row that was in the table has that key or that
  \<^verbatim>\<open>question_id\<close>, and keys and \<^verbatim>\<open>question_id\<close>s stay pairwise distinct over the whole
  table. The table is assumed to satisfy its constraints before the request.
\<close>

theorem success_inserts_one_fresh_row:
  assumes "table_consistent st"
    and "create_submission env submission st = (Inr resp, st')"
  shows "http_response (Inr resp) =
           (200, SuccessBody ''Submission created successfully'' (submission_id resp)) \<and>
         (\<exists>row. questions st' = questions st @ [row] \<and>
            row_id row = submission_id resp \<and>
            rec_question_id row = uuid4 env \<and>
            (\<forall>r \<in> set (questions st).
               row_id r \<noteq> submission_id resp \<and> rec_question_id r \<noteq> uuid4 env)) \<and>
         distinct (map rec_question_id (questions st')) \<and>
         distinct (map row_id (questions st'))"
proof -
  from create_submission_Inr [OF assms(2)] obtain row where
    row: "questions st' = questions st @ [row]" "row_id row = questions_id_seq st"
      "rec_question_id row = uuid4 env" and
    fresh: "uuid4 env \<notin> set (map rec_question_id (questions st))" and
    resp: "resp = \<lparr>message = ''Submission created successfully'',
                    submission_id = questions_id_seq st\<rparr>"
    by blast
  from assms(1) have old: "\<forall>r \<in> set (questions st). row_id r < questions_id_seq st"
    by (simp add: table_consistent_def)
  from table_consistent_preserved [OF assms] have
    "distinct (map rec_question_id (questions st'))" "distinct (map row_id (questions st'))"
    by (simp_all add: table_consistent_def)
  moreover have "http_response (Inr resp) =
      (200, SuccessBody ''Submission created successfully'' (submission_id resp))"
    by (simp add: resp)
  moreover have "\<forall>r \<in> set (questions st).
      row_id r \<noteq> submission_id resp \<and> rec_question_id r \<noteq> uuid4 env"
    using old fresh resp by force
  ultimately show ?thesis
    using row resp by auto
qed

theorem success_inserts_one_fresh_row_witness:
  "table_consistent populated_state \<and>
   fst (create_submission example_env example_submission populated_state) =
     Inr \<lparr>message = ''Submission created successfully'', submission_id = 2\<rparr> \<and>
   (\<exists>row. questions (snd (create_submission example_env example_submission populated_state)) =
            questions populated_state @ [row] \<and>
          row_id row = 2 \<and>
          rec_question_id row = ''6fa459ea-ee8a-3ca4-894e-db77e160355e'') \<and>
   distinct (map rec_question_id
     (questions (snd (create_submission example_env example_submission populated_state)))) \<and>
   distinct (map row_id
     (questions (snd (create_submission example_env example_submission populated_state))))"
proof -
  let ?ok = "Inr \<lparr>message = ''Submission created successfully'', submission_id = 2\<rparr>"
  let ?r = "create_submission example_env example_submission populated_state"
  have c: "table_consistent populated_state"
    by (simp add: table_consistent_def populated_state_def)
  have r: "fst ?r = ?ok"
    by (simp add: create_submission_def example_env_def example_submission_def
          populated_state_def lower_def lower_char_def str_int_def str_nat.simps digit_char_def try_insert_def
          cursor_execute_def db_commit_def Let_def)
  then have run: "?r = (?ok, snd ?r)"
    by (metis prod.collapse)
  from success_inserts_one_fresh_row [OF c run] c r show ?thesis
    by (auto simp: example_env_def)
qed

text \<open>
  C9. The store's \<^verbatim>\<open>get_public_url\<close> answers every lookup (it forms the URL from the
  bucket and the name). Then every failure of the loop over the items leaves the handler
  as it was raised there, an \<^verbatim>\<open>HTTPException\<close> that the caller receives with its status
  and its detail: status 400 and \<^verbatim>\<open>Error decoding image data: ...\<close> with the decoder's
  reason for an image item that does not decode, or status 500 and
  \<^verbatim>\<open>Error uploading image: ...\<close> with the reason for an upload call that raised or
  returned a falsy result. Nothing is swallowed: when the loop succeeds, every image item
  was decoded and every upload call it made was answered with a truthy result.
\<close>

theorem item_failures_reach_caller_with_detail:
  assumes "\<forall>bucket name. \<exists>url. get_public_url env bucket name = Inr url"
  shows "(\<forall>e st1.
            process_items env (uuid4 env) (data submission) [] 1 st = (Inl e, st1) \<longrightarrow>
            create_submission env submission st = (Inl e, st1) \<and>
            ((\<exists>item d. item \<in> set (data submission) \<and> is_image item \<and>
                b64decode env (item_value item) = Inl d \<and>
                e = HTTPException 400 (''Error decoding image data: '' @ d) \<and>
                http_response (Inl e) = (400, Detail (''Error decoding image data: '' @ d))) \<or>
             (\<exists>call d. call \<in> set (uploads st1) \<and>
                (upload env (fst call) (fst (snd call)) (snd (snd call)) = UploadRaises d \<or>
                 upload env (fst call) (fst (snd call)) (snd (snd call)) = UploadFalsy d) \<and>
                e = HTTPException 500 (''Error uploading image: '' @ d) \<and>
                http_response (Inl e) = (500, Detail (''Error uploading image: '' @ d))))) \<and>
         (\<forall>out st1.
            process_items env (uuid4 env) (data submission) [] 1 st = (Inr out, st1) \<longrightarrow>
            (\<forall>item \<in> set (data submission).
               is_image item \<longrightarrow> (\<exists>c. b64decode env (item_value item) = Inr c)) \<and>
            (\<forall>call \<in> set (drop (length (uploads st)) (uploads st1)).
               upload env (fst call) (fst (snd call)) (snd (snd call)) = UploadTruthy))"
proof (intro conjI allI impI)
  fix e st1
  assume loop: "process_items env (uuid4 env) (data submission) [] 1 st = (Inl e, st1)"
  then show "create_submission env submission st = (Inl e, st1)"
    by (rule create_submission_loop_error)
  from process_items_Inl [OF assms loop] consider
    (decode) item d where "item \<in> set (data submission)" "is_image item"
      "b64decode env (item_value item) = Inl d"
      "e = HTTPException 400 (''Error decoding image data: '' @ d)" |
    (upload) call d where "call \<in> set (uploads st1)"
      "upload env (fst call) (fst (snd call)) (snd (snd call)) = UploadRaises d \<or>
       upload env (fst call) (fst (snd call)) (snd (snd call)) = UploadFalsy d"
      "e = HTTPException 500 (''Error uploading image: '' @ d)"
    by blast
  then show "(\<exists>item d. item \<in> set (data submission) \<and> is_image item \<and>
            b64decode env (item_value item) = Inl d \<and>
            e = HTTPException 400 (''Error decoding image data: '' @ d) \<and>
            http_response (Inl e) = (400, Detail (''Error decoding image data: '' @ d))) \<or>
         (\<exists>call d. call \<in> set (uploads st1) \<and>
            (upload env (fst call) (fst (snd call)) (snd (snd call)) = UploadRaises d \<or>
             upload env (fst call) (fst (snd call)) (snd (snd call)) = UploadFalsy d) \<and>
            e = HTTPException 500 (''Error uploading image: '' @ d) \<and>
            http_response (Inl e) = (500, Detail (''Error uploading image: '' @ d)))"
  proof cases
    case decode
    then show ?thesis
      by (intro disjI1 exI [of _ item] exI [of _ d]) simp
  next
    case upload
    then show ?thesis
      by (intro disjI2 exI [of _ call] exI [of _ d]) simp
  qed
next
  fix out st1
  assume loop: "process_items env (uuid4 env) (data submission) [] 1 st = (Inr out, st1)"
  from process_items_Inr_all_ok [OF loop]
  show "\<forall>item \<in> set (data submission).
          is_image item \<longrightarrow> (\<exists>c. b64decode env (item_value item) = Inr c)"
    and "\<forall>call \<in> set (drop (length (uploads st)) (uploads st1)).
          upload env (fst call) (fst (snd call)) (snd (snd call)) = UploadTruthy"
    by blast+
qed

theorem item_failures_reach_caller_with_detail_witness:
  "create_submission example_env broken_image_submission example_state =
     (Inl (HTTPException 400
        ''Error decoding image data: Invalid base64-encoded string: number of data characters (1) cannot be 1 more than a multiple of 4''),
      example_state\<lparr>uploads :=
        [(''vupi-questions-images'', ''6fa459ea-ee8a-3ca4-894e-db77e160355e_1.png'', [104, 105])]\<rparr>) \<and>
   create_submission upload_failure_env interleaved_submission example_state =
     (Inl (HTTPException 500 ''Error uploading image: Bucket not found''),
      example_state\<lparr>uploads :=
        [(''vupi-questions-images'', ''6fa459ea-ee8a-3ca4-894e-db77e160355e_1.png'', [104, 105])]\<rparr>) \<and>
   http_response (Inl (HTTPException 500 ''Error uploading image: Bucket not found'')) =
     (500, Detail ''Error uploading image: Bucket not found'')"
proof -
  let ?st1 = "example_state\<lparr>uploads :=
        [(''vupi-questions-images'', ''6fa459ea-ee8a-3ca4-894e-db77e160355e_1.png'', [104, 105])]\<rparr>"
  have total: "\<forall>bucket name. \<exists>url. get_public_url example_env bucket name = Inr url"
    by (simp add: example_env_def)
  have total': "\<forall>bucket name. \<exists>url. get_public_url upload_failure_env bucket name = Inr url"
    by (simp add: upload_failure_env_def example_env_def)
  have l1: "process_items example_env (uuid4 example_env) (data broken_image_submission) [] 1
        example_state =
      (Inl (HTTPException 400
        ''Error decoding image data: Invalid base64-encoded string: number of data characters (1) cannot be 1 more than a multiple of 4''),
       ?st1)"
    by (simp add: example_env_def broken_image_submission_def example_state_def lower_def
          lower_char_def str_int_def str_nat.simps digit_char_def Let_def)
  have l2: "process_items upload_failure_env (uuid4 upload_failure_env)
        (data interleaved_submission) [] 1 example_state =
      (Inl (HTTPException 500 ''Error uploading image: Bucket not found''), ?st1)"
    by (simp add: upload_failure_env_def example_env_def interleaved_submission_def
          example_state_def lower_def lower_char_def str_int_def str_nat.simps digit_char_def
          Let_def)
  from item_failures_reach_caller_with_detail [OF total, of broken_image_submission example_state]
    l1
  have r1: "create_submission example_env broken_image_submission example_state =
      (Inl (HTTPException 400
        ''Error decoding image data: Invalid base64-encoded string: number of data characters (1) cannot be 1 more than a multiple of 4''),
       ?st1)"
    by blast
  from item_failures_reach_caller_with_detail [OF total', of interleaved_submission example_state]
    l2
  have r2: "create_submission upload_failure_env interleaved_submission example_state =
      (Inl (HTTPException 500 ''Error uploading image: Bucket not found''), ?st1)"
    by blast
  from r1 r2 show ?thesis by simp
qed

text \<open>
  C10. A submission with no item is accepted. When the four database steps do not raise and
  the UUID drawn is not in the table, the handler returns the success response with the
  next key of the sequence; no upload call is made, and the row added to the table has an
  empty \<^verbatim>\<open>data\<close>. A request whose body validates to such a submission is answered with
  status 200 and that response.
\<close>

theorem empty_submission_accepted:
  assumes "data submission = []"
    and "execute_raises env = None" and "commit_raises env = None"
    and "fetchone_raises env = None" and "print_raises env = None"
    and "uuid4 env \<notin> set (map rec_question_id (questions st))"
  shows "\<exists>st' row.
           create_submission env submission st =
             (Inr \<lparr>message = ''Submission created successfully'',
                   submission_id = questions_id_seq st\<rparr>, st') \<and>
           uploads st' = uploads st \<and>
           questions st' = questions st @ [row] \<and>
           row_id row = questions_id_seq st \<and>
           rec_question_id row = uuid4 env \<and>
           rec_data row = [] \<and>
           (\<forall>body. validate_Submission env body = Inr submission \<longrightarrow>
              post_questions env body st =
                ((200, SuccessBody ''Submission created successfully'' (questions_id_seq st)), st'))"
  using assms
  by (simp add: post_questions_def create_submission_def try_insert_def cursor_execute_def
        db_commit_def Let_def)

theorem empty_submission_accepted_witness:
  "fst (create_submission example_env empty_submission populated_state) =
     Inr \<lparr>message = ''Submission created successfully'', submission_id = 2\<rparr> \<and>
   fst (post_questions example_env empty_data_body populated_state) =
     (200, SuccessBody ''Submission created successfully'' 2) \<and>
   uploads (snd (create_submission example_env empty_submission populated_state)) = [] \<and>
   (\<exists>row. questions (snd (create_submission example_env empty_submission populated_state)) =
            questions populated_state @ [row] \<and>
          row_id row = 2 \<and> rec_data row = [])"
proof -
  have "data empty_submission = []"
    by (simp add: empty_submission_def)
  moreover have "execute_raises example_env = None" "commit_raises example_env = None"
    "fetchone_raises example_env = None" "print_raises example_env = None"
    by (simp_all add: example_env_def)
  moreover have "uuid4 example_env \<notin> set (map rec_question_id (questions populated_state))"
    by (simp add: example_env_def populated_state_def)
  ultimately have "\<exists>st' row.
      create_submission example_env empty_submission populated_state =
        (Inr \<lparr>message = ''Submission created successfully'',
              submission_id = questions_id_seq populated_state\<rparr>, st') \<and>
      uploads st' = uploads populated_state \<and>
      questions st' = questions populated_state @ [row] \<and>
      row_id row = questions_id_seq populated_state \<and>
      rec_question_id row = uuid4 example_env \<and>
      rec_data row = [] \<and>
      (\<forall>body. validate_Submission example_env body = Inr empty_submission \<longrightarrow>
         post_questions example_env body populated_state =
           ((200, SuccessBody ''Submission created successfully''
               (questions_id_seq populated_state)), st'))"
    by (rule empty_submission_accepted)
  moreover have "questions_id_seq populated_state = 2" "uploads populated_state = []"
    by (simp_all add: populated_state_def)
  ultimately show ?thesis
    using empty_data_body_valid by auto
qed

end
